theory Spec2Isabelle
  imports Main "HOL-Library.Word" "HOL-Library.Signed_Division"
begin

section \<open>hivexml: the registry-hive to XML serializer of \<^verbatim>\<open>xml/hivexml.c\<close>\<close>

text \<open>
  The development embeds the callbacks of \<^verbatim>\<open>xml/hivexml.c\<close> as HOL functions.
  A C \<^verbatim>\<open>char\<close> is a \<^typ>\<open>char\<close> (one byte); a \<^verbatim>\<open>const char *\<close> argument is the
  memory from the pointer on, a \<^typ>\<open>string\<close>, whose C string ends before its
  first NUL. \<^verbatim>\<open>size_t\<close> and the node and value handles are 64-bit words, \<^verbatim>\<open>int64_t\<close> is a
  64-bit word read with \<^const>\<open>sint\<close>. Diagnostics printed to \<^verbatim>\<open>stderr\<close> are left out:
  they change neither the document nor the control flow.
\<close>

subsection \<open>C strings and the printable test\<close>

definition NUL :: char where
  "NUL = CHR 0x00"

definition strlen :: "string \<Rightarrow> nat" where
  "strlen data = length (takeWhile (\<lambda>c. c \<noteq> NUL) data)"

text \<open>The text a \<^verbatim>\<open>BAD_CAST\<close> pointer denotes for the writer: the bytes before the terminator.\<close>

definition c_str :: "string \<Rightarrow> string" where
  "c_str data = take (strlen data) data"

text \<open>
  \<^verbatim>\<open>isprint\<close> of \<^verbatim>\<open>ctype.h\<close> in the "C" locale: the bytes 0x20 to 0x7E. A byte from 0x80
  on (a negative \<^verbatim>\<open>char\<close>) is not printable.
\<close>

definition isprint :: "char \<Rightarrow> bool" where
  "isprint c = (32 \<le> (of_char c :: nat) \<and> (of_char c :: nat) \<le> 126)"

text \<open>
  The \<^verbatim>\<open>for\<close> loop of \<^verbatim>\<open>encoding_recommendation\<close>: the arguments are the buffer, the
  loop bound, the index and the current value of \<^verbatim>\<open>is_printable\<close>; the result is the value
  of \<^verbatim>\<open>is_printable\<close> when the loop is left.
\<close>

function encoding_recommendation_loop :: "string \<Rightarrow> nat \<Rightarrow> nat \<Rightarrow> bool \<Rightarrow> bool" where
  "encoding_recommendation_loop data data_len i is_printable =
     (if i < data_len
      then (let p = isprint (data ! i)
            in if \<not> p then p else encoding_recommendation_loop data data_len (Suc i) p)
      else is_printable)"
  by pat_completeness auto
termination
  by (relation "measure (\<lambda>(data, data_len, i, p). data_len - i)") auto

declare encoding_recommendation_loop.simps [simp del]

definition encoding_recommendation :: "string \<Rightarrow> string" where
  "encoding_recommendation data =
     (let is_printable = False;
          data_len = strlen data
      in if encoding_recommendation_loop data data_len 0 is_printable
         then ''none'' else ''base64'')"

subsection \<open>The XML writer and the process state\<close>

text \<open>
  The calls made on the libxml2 text writer. A call the writer accepts is appended to the
  document written so far; \<^verbatim>\<open>xmlTextWriterWriteBase64 (w, data, start, len)\<close> is recorded
  with the \<^verbatim>\<open>len\<close> bytes it is given, \<^verbatim>\<open>xmlTextWriterWriteFormatAttribute\<close> with the
  formatted text.
\<close>

datatype xml_call =
    StartDocument string
  | EndDocument
  | StartElement string
  | EndElement
  | WriteAttribute string string
  | WriteFormatAttribute string string
  | StartAttribute string
  | WriteBase64 string
  | EndAttribute
  | WriteString string

text \<open>
  The state the callbacks work on: the calls the writer has accepted, the writer's own
  behaviour (whether, after the calls accepted so far, it accepts the next one or returns
  -1), whether \<^verbatim>\<open>malloc\<close> finds memory at this point of the run, and \<^verbatim>\<open>errno\<close>.
\<close>

record state =
  events :: "xml_call list"
  accepts :: "xml_call list \<Rightarrow> xml_call \<Rightarrow> bool"
  malloc_ok :: "xml_call list \<Rightarrow> bool"
  errno :: int

text \<open>The two ways the process ends early: \<^verbatim>\<open>exit (EXIT_FAILURE)\<close> and \<^verbatim>\<open>abort ()\<close>.\<close>

datatype fatal = Exit_failure | Abort

text \<open>A computation either ends the process, in the state reached, or returns.\<close>

type_synonym 'a result = "(fatal \<times> state) + 'a"

definition and_then :: "'a result \<Rightarrow> ('a \<Rightarrow> 'b result) \<Rightarrow> 'b result" where
  "and_then m f = (case m of Inl e \<Rightarrow> Inl e | Inr x \<Rightarrow> f x)"

fun chain :: "(state \<Rightarrow> state result) list \<Rightarrow> state \<Rightarrow> state result" where
  "chain [] st = Inr st"
| "chain (f # fs) st = and_then (f st) (chain fs)"

definition returning :: "int \<Rightarrow> state result \<Rightarrow> (int \<times> state) result" where
  "returning ret m = and_then m (\<lambda>st. Inr (ret, st))"

text \<open>The macro \<^verbatim>\<open>XML_CHECK\<close>: make the call, and exit if the writer returns -1.\<close>

definition XML_CHECK :: "xml_call \<Rightarrow> state \<Rightarrow> state result" where
  "XML_CHECK c st =
     (if accepts st (events st) c
      then Inr (st\<lparr>events := events st @ [c]\<rparr>)
      else Inl (Exit_failure, st))"

text \<open>
  \<^verbatim>\<open>XML_CHECK (xmlTextWriterWriteBase64, (writer, data, start, len))\<close>. The parameters
  \<^verbatim>\<open>start\<close> and \<^verbatim>\<open>len\<close> are of type \<^verbatim>\<open>int\<close>; libxml2 returns -1 when one of them is
  negative, and otherwise writes \<^verbatim>\<open>len\<close> bytes from \<^verbatim>\<open>data + start\<close>.
\<close>

definition xmlTextWriterWriteBase64 :: "string \<Rightarrow> int \<Rightarrow> int \<Rightarrow> state \<Rightarrow> state result" where
  "xmlTextWriterWriteBase64 data start len st =
     (if start < 0 \<or> len < 0 then Inl (Exit_failure, st)
      else XML_CHECK (WriteBase64 (take (nat len) (drop (nat start) data))) st)"

text \<open>Whether a computation has ended in \<^verbatim>\<open>abort ()\<close>.\<close>

definition aborted :: "'a result \<Rightarrow> bool" where
  "aborted r = (case r of Inl (e, st) \<Rightarrow> e = Abort | Inr x \<Rightarrow> False)"

subsection \<open>The hive library\<close>

text \<open>
  The functions of the hivex library that the callbacks query, as a record of what they
  answer for this hive. Each answer comes with the value the call stores in \<^verbatim>\<open>errno\<close>,
  if it stores one; the callbacks never reset \<^verbatim>\<open>errno\<close> themselves.
\<close>

type_synonym size_t = "64 word"
type_synonym int64_t = "64 word"

record hive =
  hivex_root :: "size_t \<times> int option"
  hivex_last_modified :: "int64_t \<times> int option"
  hivex_node_timestamp :: "size_t \<Rightarrow> int64_t \<times> int option"
  hivex_node_struct_length :: "size_t \<Rightarrow> size_t \<times> int option"
  hivex_value_struct_length :: "size_t \<Rightarrow> size_t \<times> int option"
  hivex_value_data_cell_offset :: "size_t \<Rightarrow> (size_t \<times> size_t) \<times> int option"
  hivex_close :: "int \<times> int option"

definition set_errno :: "int option \<Rightarrow> state \<Rightarrow> state" where
  "set_errno e st = (case e of None \<Rightarrow> st | Some n \<Rightarrow> st\<lparr>errno := n\<rparr>)"

text \<open>
  Modelled from the spec: \<^verbatim>\<open>enum hive_type\<close> is declared in \<^verbatim>\<open>hivex.h\<close>, which is not
  among the sources. The constructors are the enumerators the callbacks name in their
  \<^verbatim>\<open>switch\<close> statements; \<open>hive_t_unknown\<close> stands for every other number the type field
  of a value can hold (the \<^verbatim>\<open>default\<close> label).
\<close>

datatype hive_type =
    hive_t_none
  | hive_t_string
  | hive_t_expand_string
  | hive_t_binary
  | hive_t_dword
  | hive_t_dword_be
  | hive_t_link
  | hive_t_multiple_strings
  | hive_t_resource_list
  | hive_t_full_resource_description
  | hive_t_resource_requirements_list
  | hive_t_qword
  | hive_t_unknown nat


subsection \<open>Formatted numbers\<close>

definition digit_char :: "nat \<Rightarrow> char" where
  "digit_char d = char_of (48 + d)"

fun show_nat :: "nat \<Rightarrow> string" where
  "show_nat n = (if n < 10 then [digit_char n] else show_nat (n div 10) @ [digit_char (n mod 10)])"

declare show_nat.simps [simp del]

text \<open>The conversions \<^verbatim>\<open>%d\<close>, \<^verbatim>\<open>PRIi32\<close> and \<^verbatim>\<open>PRIi64\<close> of a signed number.\<close>

definition show_int :: "int \<Rightarrow> string" where
  "show_int i = (if i < 0 then CHR ''-'' # show_nat (nat (- i)) else show_nat (nat i))"

text \<open>
  A \<^verbatim>\<open>size_t\<close> where an \<^verbatim>\<open>int\<close> is expected (the \<^verbatim>\<open>len\<close> parameter of
  \<^verbatim>\<open>xmlTextWriterWriteBase64\<close>, the argument of a \<^verbatim>\<open>%d\<close> conversion): the low 32 bits
  of the value, read as a signed number, on the usual 64-bit targets.
\<close>

definition int_of_size_t :: "size_t \<Rightarrow> int" where
  "int_of_size_t x = sint (ucast x :: 32 word)"

text \<open>
  \<^verbatim>\<open>snprintf (buf, 1+BYTE_RUN_BUF_LEN, "%d", x)\<close> with \<^verbatim>\<open>x\<close> of type \<^verbatim>\<open>size_t\<close>. The
  text has at most 11 characters, so the buffer of 33 never cuts it.
\<close>

definition fmt_d :: "size_t \<Rightarrow> string" where
  "fmt_d x = show_int (int_of_size_t x)"

text \<open>A two-digit field of \<^verbatim>\<open>strftime\<close> (\<^verbatim>\<open>%m\<close>, \<^verbatim>\<open>%d\<close>, \<^verbatim>\<open>%H\<close>, \<^verbatim>\<open>%M\<close>, \<^verbatim>\<open>%S\<close>).\<close>

definition fmt_02d :: "int \<Rightarrow> string" where
  "fmt_02d i = (let s = show_int i in if length s < 2 then CHR ''0'' # s else s)"

subsection \<open>The timestamp converter\<close>

text \<open>
  \<^verbatim>\<open>gmtime\<close> and \<^verbatim>\<open>strftime\<close> belong to the C library. They are modelled after POSIX: a
  \<^verbatim>\<open>time_t\<close> counts seconds since 1970-01-01T00:00:00Z, every day having 86400 of them, in
  the proleptic Gregorian calendar; \<^verbatim>\<open>gmtime\<close> fails when the year does not fit into the
  \<^verbatim>\<open>int\<close> field \<^verbatim>\<open>tm_year\<close>; \<^verbatim>\<open>%F\<close> is \<^verbatim>\<open>%Y-%m-%d\<close>, \<^verbatim>\<open>%T\<close> is \<^verbatim>\<open>%H:%M:%S\<close>,
  \<^verbatim>\<open>%Y\<close> is the year as a decimal number, and \<^verbatim>\<open>strftime\<close> returns 0 when the text and
  its terminator do not fit into the buffer. Only the fields the format reads are kept.
\<close>

record tm =
  tm_sec :: int
  tm_min :: int
  tm_hour :: int
  tm_mday :: int
  tm_mon :: int
  tm_year :: int

text \<open>The Gregorian calendar: leap years, and the days before a year and before a month.\<close>

definition is_leap :: "int \<Rightarrow> bool" where
  "is_leap y = (y mod 4 = 0 \<and> (y mod 100 \<noteq> 0 \<or> y mod 400 = 0))"



text \<open>The days of a year before the first of month \<open>m\<close> (1 to 12).\<close>

definition days_before_month :: "bool \<Rightarrow> int \<Rightarrow> int" where
  "days_before_month leap m =
     (if m \<le> 1 then 0 else if m = 2 then 31
      else (if leap then 1 else 0) +
        (if m = 3 then 59 else if m = 4 then 90 else if m = 5 then 120 else if m = 6 then 151
         else if m = 7 then 181 else if m = 8 then 212 else if m = 9 then 243
         else if m = 10 then 273 else if m = 11 then 304 else 334))"

text \<open>The month (1 to 12) of the day \<open>yday\<close> (from 0) of a year.\<close>

definition month_of :: "bool \<Rightarrow> int \<Rightarrow> int" where
  "month_of leap yday =
     (if yday < days_before_month leap 2 then 1 else if yday < days_before_month leap 3 then 2
      else if yday < days_before_month leap 4 then 3 else if yday < days_before_month leap 5 then 4
      else if yday < days_before_month leap 6 then 5 else if yday < days_before_month leap 7 then 6
      else if yday < days_before_month leap 8 then 7 else if yday < days_before_month leap 9 then 8
      else if yday < days_before_month leap 10 then 9
      else if yday < days_before_month leap 11 then 10
      else if yday < days_before_month leap 12 then 11 else 12)"

text \<open>
  The year of a day number and the day (from 0) within that year. The days are counted
  from 0001-01-01 and cut into cycles of 400 years (146097 days), centuries (36524 days, the
  fourth of a cycle one day longer), groups of four years (1461 days, the last of a century
  one day shorter) and years (365 days, the fourth of a group one day longer).
\<close>

definition year_and_day :: "int \<Rightarrow> int \<times> int" where
  "year_and_day days =
     (let n = days + 719162;
          n400 = n div 146097;
          n = n mod 146097;
          n100 = min 3 (n div 36524);
          n = n - 36524 * n100;
          n4 = min 24 (n div 1461);
          n = n - 1461 * n4;
          n1 = min 3 (n div 365);
          yday = n - 365 * n1
      in (400 * n400 + 100 * n100 + 4 * n4 + n1 + 1, yday))"

definition gmtime :: "int \<Rightarrow> tm option" where
  "gmtime t =
     (let days = t div 86400;
          rem = t mod 86400;
          (y, yday) = year_and_day days;
          m = month_of (is_leap y) yday;
          d = yday - days_before_month (is_leap y) m + 1
      in if y - 1900 < - (2 ^ 31) \<or> 2 ^ 31 \<le> y - 1900 then None
         else Some \<lparr>tm_sec = rem mod 60, tm_min = rem div 60 mod 60, tm_hour = rem div 3600,
                    tm_mday = d, tm_mon = m - 1, tm_year = y - 1900\<rparr>)"


text \<open>\<^verbatim>\<open>strftime (ret, maxsize, "%FT%TZ", tm)\<close>; \<open>None\<close> is the return value 0.\<close>

definition strftime_FTZ :: "nat \<Rightarrow> tm \<Rightarrow> string option" where
  "strftime_FTZ maxsize tm =
     (let s = show_int (tm_year tm + 1900) @ ''-'' @ fmt_02d (tm_mon tm + 1) @ ''-''
              @ fmt_02d (tm_mday tm) @ ''T'' @ fmt_02d (tm_hour tm) @ '':''
              @ fmt_02d (tm_min tm) @ '':'' @ fmt_02d (tm_sec tm) @ ''Z''
      in if length s < maxsize then Some s else None)"

definition WINDOWS_TICK :: int where
  "WINDOWS_TICK = 10000000"

definition SEC_TO_UNIX_EPOCH :: int where
  "SEC_TO_UNIX_EPOCH = 11644473600"

definition TIMESTAMP_BUF_LEN :: nat where
  "TIMESTAMP_BUF_LEN = 32"

text \<open>
  \<^verbatim>\<open>filetime_to_8601\<close>. The division is C's, which truncates towards zero; the result is
  stored in a 64-bit \<^verbatim>\<open>time_t\<close>. \<open>None\<close> is the NULL pointer.
\<close>

definition filetime_to_8601 :: "state \<Rightarrow> int64_t \<Rightarrow> string option result" where
  "filetime_to_8601 st windows_ticks =
     (if windows_ticks = 0 then Inr None
      else
        let t = sint (word_of_int (sint windows_ticks sdiv WINDOWS_TICK - SEC_TO_UNIX_EPOCH)
                       :: 64 word)
        in case gmtime t of
             None \<Rightarrow> Inr None
           | Some tm \<Rightarrow>
               if \<not> malloc_ok st (events st) then Inl (Exit_failure, st)
               else (case strftime_FTZ TIMESTAMP_BUF_LEN tm of
                       None \<Rightarrow> Inl (Exit_failure, st)
                     | Some ret \<Rightarrow> Inr (Some ret)))"

subsection \<open>Reading a timestamp\<close>








subsection \<open>Byte runs and safely printed attributes\<close>

definition node_byte_runs :: "hive \<Rightarrow> size_t \<Rightarrow> state \<Rightarrow> (int \<times> state) result" where
  "node_byte_runs h node st0 =
     (let (node_struct_length, e) = hivex_node_struct_length h node;
          st = set_errno e st0
      in if errno st \<noteq> 0 then Inr (- 1, st)
         else returning 0
           (chain [XML_CHECK (StartElement ''byte_runs''),
                   XML_CHECK (StartElement ''byte_run''),
                   XML_CHECK (WriteAttribute ''file_offset'' (fmt_d node)),
                   XML_CHECK (WriteAttribute ''len'' (fmt_d node_struct_length)),
                   XML_CHECK EndElement,
                   XML_CHECK EndElement] st))"

text \<open>
  \<^verbatim>\<open>safe_print_string_attribute\<close>; its three pointer arguments may be NULL (\<open>None\<close>).
  The two \<^verbatim>\<open>strcmp\<close> tests are comparisons of the recommended encoding's text. The
  \<^verbatim>\<open>size_t\<close> that \<^verbatim>\<open>strlen\<close> returns is passed as the \<^verbatim>\<open>int\<close> length of the base64 call.
\<close>

definition safe_print_string_attribute ::
  "string option \<Rightarrow> string option \<Rightarrow> string option \<Rightarrow> state \<Rightarrow> (int \<times> state) result" where
  "safe_print_string_attribute attr_name attr_encoding attr_data st =
     (case (attr_name, attr_data, attr_encoding) of
        (Some name, Some data, Some encoding) \<Rightarrow>
          (let encoding_to_use = encoding_recommendation data
           in if encoding_to_use = ''none''
              then returning 0 (XML_CHECK (WriteAttribute name (c_str data)) st)
              else if encoding_to_use = ''base64''
              then returning 0
                (chain [XML_CHECK (WriteAttribute encoding ''base64''),
                        XML_CHECK (StartAttribute name),
                        xmlTextWriterWriteBase64 data 0 (int_of_size_t (of_nat (strlen data))),
                        XML_CHECK EndAttribute] st)
              else Inr (- 1, st))
      | _ \<Rightarrow> Inr (- 1, st))"

subsection \<open>Nodes\<close>

text \<open>
  \<^verbatim>\<open>node_start\<close>, with the timestamp converter it calls as an argument (\<open>conv\<close>), so that
  what the callback asks of the converter can be stated; \<open>node_start\<close> itself calls
  \<^const>\<open>filetime_to_8601\<close>. The handle of the node is compared with the answer of
  \<^verbatim>\<open>hivex_root\<close>.
\<close>

definition node_start_with ::
  "(state \<Rightarrow> int64_t \<Rightarrow> string option result) \<Rightarrow> hive \<Rightarrow> size_t \<Rightarrow> string \<Rightarrow> state
     \<Rightarrow> (int \<times> state) result" where
  "node_start_with conv h node name st0 =
     and_then (XML_CHECK (StartElement ''node'') st0) (\<lambda>st.
     and_then (safe_print_string_attribute (Some ''name'') (Some ''name_encoding'') (Some name) st)
       (\<lambda>(ret, st).
     let (root, e) = hivex_root h; st = set_errno e st in
     and_then (if node = root then XML_CHECK (WriteAttribute ''root'' ''1'') st else Inr st) (\<lambda>st.
     let (last_modified, e) = hivex_node_timestamp h node; st = set_errno e st in
     and_then
       (if 0 \<le> sint last_modified
        then and_then (conv st last_modified) (\<lambda>timebuf.
               case timebuf of
                 Some buf \<Rightarrow> chain [XML_CHECK (StartElement ''mtime''),
                                    XML_CHECK (WriteString buf),
                                    XML_CHECK EndElement] st
               | None \<Rightarrow> Inr st)
        else Inr st) (\<lambda>st.
     node_byte_runs h node st))))"

definition node_start :: "hive \<Rightarrow> size_t \<Rightarrow> string \<Rightarrow> state \<Rightarrow> (int \<times> state) result" where
  "node_start = node_start_with filetime_to_8601"

definition node_end :: "hive \<Rightarrow> size_t \<Rightarrow> string \<Rightarrow> state \<Rightarrow> (int \<times> state) result" where
  "node_end h node name st = returning 0 (XML_CHECK EndElement st)"

subsection \<open>Values\<close>

text \<open>\<^verbatim>\<open>*key\<close> is the first byte of the key's buffer.\<close>

definition start_value :: "string \<Rightarrow> string \<Rightarrow> string option \<Rightarrow> state \<Rightarrow> state result" where
  "start_value key type encoding st0 =
     and_then (XML_CHECK (StartElement ''value'') st0) (\<lambda>st.
     and_then (XML_CHECK (WriteAttribute ''type'' type) st) (\<lambda>st.
     and_then (case encoding of
                 Some enc \<Rightarrow> XML_CHECK (WriteAttribute ''value_encoding'' enc) st
               | None \<Rightarrow> Inr st) (\<lambda>st.
     if (case key of [] \<Rightarrow> False | c # _ \<Rightarrow> c \<noteq> NUL)
     then and_then (safe_print_string_attribute (Some ''key'') (Some ''key_encoding'') (Some key) st)
            (\<lambda>(ret, st). Inr st)
     else XML_CHECK (WriteAttribute ''default'' ''1'') st)))"

definition end_value :: "state \<Rightarrow> state result" where
  "end_value st = XML_CHECK EndElement st"

definition value_byte_runs :: "hive \<Rightarrow> size_t \<Rightarrow> state \<Rightarrow> (int \<times> state) result" where
  "value_byte_runs h val st0 =
     (let (value_data_structure_length, e) = hivex_value_struct_length h val;
          st = set_errno e st0
      in if errno st \<noteq> 0 then Inr (- 1, st)
         else
           let ((value_data_cell_offset, value_data_cell_length), e) =
                 hivex_value_data_cell_offset h val;
               st = set_errno e st
           in if errno st \<noteq> 0 then Inr (- 1, st)
              else returning 0
                (chain [XML_CHECK (StartElement ''byte_runs''),
                        XML_CHECK (StartElement ''byte_run''),
                        XML_CHECK (WriteAttribute ''file_offset'' (fmt_d val)),
                        XML_CHECK (WriteAttribute ''len'' (fmt_d value_data_structure_length)),
                        XML_CHECK EndElement,
                        (\<lambda>st. if 4 < value_data_cell_length
                           then chain [XML_CHECK (StartElement ''byte_run''),
                                       XML_CHECK (WriteAttribute ''file_offset''
                                                    (fmt_d value_data_cell_offset)),
                                       XML_CHECK (WriteAttribute ''len''
                                                    (fmt_d value_data_cell_length)),
                                       XML_CHECK EndElement] st
                           else Inr st),
                        XML_CHECK EndElement] st))"

text \<open>
  The \<^verbatim>\<open>switch\<close> of each callback that has one: the type attribute's text, or \<open>None\<close>
  where the callback calls \<^verbatim>\<open>abort ()\<close>.
\<close>

fun value_string_type :: "hive_type \<Rightarrow> string option" where
  "value_string_type hive_t_string = Some ''string''"
| "value_string_type hive_t_expand_string = Some ''expand''"
| "value_string_type hive_t_link = Some ''link''"
| "value_string_type hive_t_none = None"
| "value_string_type hive_t_binary = None"
| "value_string_type hive_t_dword = None"
| "value_string_type hive_t_dword_be = None"
| "value_string_type hive_t_multiple_strings = None"
| "value_string_type hive_t_resource_list = None"
| "value_string_type hive_t_full_resource_description = None"
| "value_string_type hive_t_resource_requirements_list = None"
| "value_string_type hive_t_qword = None"
| "value_string_type (hive_t_unknown n) = Some ''unknown''"

fun value_string_invalid_utf16_type :: "hive_type \<Rightarrow> string option" where
  "value_string_invalid_utf16_type hive_t_string = Some ''bad-string''"
| "value_string_invalid_utf16_type hive_t_expand_string = Some ''bad-expand''"
| "value_string_invalid_utf16_type hive_t_link = Some ''bad-link''"
| "value_string_invalid_utf16_type hive_t_multiple_strings = Some ''bad-string-list''"
| "value_string_invalid_utf16_type hive_t_none = None"
| "value_string_invalid_utf16_type hive_t_binary = None"
| "value_string_invalid_utf16_type hive_t_dword = None"
| "value_string_invalid_utf16_type hive_t_dword_be = None"
| "value_string_invalid_utf16_type hive_t_resource_list = None"
| "value_string_invalid_utf16_type hive_t_full_resource_description = None"
| "value_string_invalid_utf16_type hive_t_resource_requirements_list = None"
| "value_string_invalid_utf16_type hive_t_qword = None"
| "value_string_invalid_utf16_type (hive_t_unknown n) = Some ''unknown''"

fun value_other_type :: "hive_type \<Rightarrow> string option" where
  "value_other_type hive_t_none = None"
| "value_other_type hive_t_binary = None"
| "value_other_type hive_t_dword = None"
| "value_other_type hive_t_dword_be = None"
| "value_other_type hive_t_qword = None"
| "value_other_type hive_t_string = None"
| "value_other_type hive_t_expand_string = None"
| "value_other_type hive_t_link = None"
| "value_other_type hive_t_multiple_strings = None"
| "value_other_type hive_t_resource_list = Some ''resource-list''"
| "value_other_type hive_t_full_resource_description = Some ''resource-description''"
| "value_other_type hive_t_resource_requirements_list = Some ''resource-requirements''"
| "value_other_type (hive_t_unknown n) = Some ''unknown''"

definition value_string ::
  "hive \<Rightarrow> size_t \<Rightarrow> size_t \<Rightarrow> hive_type \<Rightarrow> size_t \<Rightarrow> string \<Rightarrow> string \<Rightarrow> state
     \<Rightarrow> (int \<times> state) result" where
  "value_string h node val t len key str st0 =
     (case value_string_type t of
        None \<Rightarrow> Inl (Abort, st0)
      | Some type \<Rightarrow>
          and_then (start_value key type None st0) (\<lambda>st.
          and_then (safe_print_string_attribute (Some ''value'') (Some ''value_encoding'')
                      (Some str) st) (\<lambda>(ret, st).
          and_then (value_byte_runs h val st) (\<lambda>(ret, st).
          and_then (end_value st) (\<lambda>st. Inr (ret, st))))))"

text \<open>The loop of \<^verbatim>\<open>value_multiple_strings\<close> over the NULL-terminated array \<^verbatim>\<open>argv\<close>.\<close>

fun value_multiple_strings_loop :: "string list \<Rightarrow> int \<Rightarrow> state \<Rightarrow> (int \<times> state) result" where
  "value_multiple_strings_loop [] ret st = Inr (ret, st)"
| "value_multiple_strings_loop (s # argv) ret st0 =
     and_then (XML_CHECK (StartElement ''string'') st0) (\<lambda>st.
     and_then (safe_print_string_attribute (Some ''value'') (Some ''value_encoding'') (Some s) st)
       (\<lambda>(ret, st).
     and_then (XML_CHECK EndElement st) (\<lambda>st.
     value_multiple_strings_loop argv ret st)))"

definition value_multiple_strings ::
  "hive \<Rightarrow> size_t \<Rightarrow> size_t \<Rightarrow> hive_type \<Rightarrow> size_t \<Rightarrow> string \<Rightarrow> string list \<Rightarrow> state
     \<Rightarrow> (int \<times> state) result" where
  "value_multiple_strings h node val t len key argv st0 =
     and_then (start_value key ''string-list'' None st0) (\<lambda>st.
     and_then (value_multiple_strings_loop argv 0 st) (\<lambda>(ret, st).
     and_then (value_byte_runs h val st) (\<lambda>(ret, st).
     and_then (end_value st) (\<lambda>st. Inr (ret, st)))))"

definition value_string_invalid_utf16 ::
  "hive \<Rightarrow> size_t \<Rightarrow> size_t \<Rightarrow> hive_type \<Rightarrow> size_t \<Rightarrow> string \<Rightarrow> string \<Rightarrow> state
     \<Rightarrow> (int \<times> state) result" where
  "value_string_invalid_utf16 h node val t len key str st0 =
     (case value_string_invalid_utf16_type t of
        None \<Rightarrow> Inl (Abort, st0)
      | Some type \<Rightarrow>
          and_then (start_value key type (Some ''base64'') st0) (\<lambda>st.
          and_then (chain [XML_CHECK (StartAttribute ''value''),
                           xmlTextWriterWriteBase64 str 0 (int_of_size_t len),
                           XML_CHECK EndAttribute] st) (\<lambda>st.
          and_then (value_byte_runs h val st) (\<lambda>(ret, st).
          and_then (end_value st) (\<lambda>st. Inr (ret, st))))))"

definition value_dword ::
  "hive \<Rightarrow> size_t \<Rightarrow> size_t \<Rightarrow> hive_type \<Rightarrow> size_t \<Rightarrow> string \<Rightarrow> 32 word \<Rightarrow> state
     \<Rightarrow> (int \<times> state) result" where
  "value_dword h node val t len key v st0 =
     and_then (start_value key ''int32'' None st0) (\<lambda>st.
     and_then (XML_CHECK (WriteFormatAttribute ''value'' (show_int (sint v))) st) (\<lambda>st.
     and_then (value_byte_runs h val st) (\<lambda>(ret, st).
     and_then (end_value st) (\<lambda>st. Inr (ret, st)))))"

definition value_qword ::
  "hive \<Rightarrow> size_t \<Rightarrow> size_t \<Rightarrow> hive_type \<Rightarrow> size_t \<Rightarrow> string \<Rightarrow> 64 word \<Rightarrow> state
     \<Rightarrow> (int \<times> state) result" where
  "value_qword h node val t len key v st0 =
     and_then (start_value key ''int64'' None st0) (\<lambda>st.
     and_then (XML_CHECK (WriteFormatAttribute ''value'' (show_int (sint v))) st) (\<lambda>st.
     and_then (value_byte_runs h val st) (\<lambda>(ret, st).
     and_then (end_value st) (\<lambda>st. Inr (ret, st)))))"

definition value_binary ::
  "hive \<Rightarrow> size_t \<Rightarrow> size_t \<Rightarrow> hive_type \<Rightarrow> size_t \<Rightarrow> string \<Rightarrow> string \<Rightarrow> state
     \<Rightarrow> (int \<times> state) result" where
  "value_binary h node val t len key v st0 =
     and_then (start_value key ''binary'' (Some ''base64'') st0) (\<lambda>st.
     and_then (chain [XML_CHECK (StartAttribute ''value''),
                      xmlTextWriterWriteBase64 v 0 (int_of_size_t len),
                      XML_CHECK EndAttribute] st) (\<lambda>st.
     and_then (value_byte_runs h val st) (\<lambda>(ret, st).
     and_then (end_value st) (\<lambda>st. Inr (ret, st)))))"

definition value_none ::
  "hive \<Rightarrow> size_t \<Rightarrow> size_t \<Rightarrow> hive_type \<Rightarrow> size_t \<Rightarrow> string \<Rightarrow> string \<Rightarrow> state
     \<Rightarrow> (int \<times> state) result" where
  "value_none h node val t len key v st0 =
     and_then (start_value key ''none'' (Some ''base64'') st0) (\<lambda>st.
     and_then (if 0 < len
               then and_then (chain [XML_CHECK (StartAttribute ''value''),
                                     xmlTextWriterWriteBase64 v 0 (int_of_size_t len),
                                     XML_CHECK EndAttribute] st) (value_byte_runs h val)
               else Inr (0, st)) (\<lambda>(ret, st).
     and_then (end_value st) (\<lambda>st. Inr (ret, st))))"

definition value_other ::
  "hive \<Rightarrow> size_t \<Rightarrow> size_t \<Rightarrow> hive_type \<Rightarrow> size_t \<Rightarrow> string \<Rightarrow> string \<Rightarrow> state
     \<Rightarrow> (int \<times> state) result" where
  "value_other h node val t len key v st0 =
     (case value_other_type t of
        None \<Rightarrow> Inl (Abort, st0)
      | Some type \<Rightarrow>
          and_then (start_value key type (Some ''base64'') st0) (\<lambda>st.
          and_then (if 0 < len
                    then and_then (chain [XML_CHECK (StartAttribute ''value''),
                                          xmlTextWriterWriteBase64 v 0 (int_of_size_t len),
                                          XML_CHECK EndAttribute] st) (value_byte_runs h val)
                    else Inr (0, st)) (\<lambda>(ret, st).
          and_then (end_value st) (\<lambda>st. Inr (ret, st)))))"

subsection \<open>The visitor and the main program\<close>

text \<open>
  The table \<^verbatim>\<open>visitor\<close> of callbacks handed to \<^verbatim>\<open>hivex_visit\<close>: a call of one of its
  entries, with the arguments the library passes (node, value, type, length, key, payload).
\<close>

datatype callback =
    Node_start size_t string
  | Node_end size_t string
  | Value_string size_t size_t hive_type size_t string string
  | Value_multiple_strings size_t size_t hive_type size_t string "string list"
  | Value_string_invalid_utf16 size_t size_t hive_type size_t string string
  | Value_dword size_t size_t hive_type size_t string "32 word"
  | Value_qword size_t size_t hive_type size_t string "64 word"
  | Value_binary size_t size_t hive_type size_t string string
  | Value_none size_t size_t hive_type size_t string string
  | Value_other size_t size_t hive_type size_t string string

fun visitor :: "hive \<Rightarrow> callback \<Rightarrow> state \<Rightarrow> (int \<times> state) result" where
  "visitor h (Node_start node name) = node_start h node name"
| "visitor h (Node_end node name) = node_end h node name"
| "visitor h (Value_string node val t len key str) = value_string h node val t len key str"
| "visitor h (Value_multiple_strings node val t len key argv) =
     value_multiple_strings h node val t len key argv"
| "visitor h (Value_string_invalid_utf16 node val t len key str) =
     value_string_invalid_utf16 h node val t len key str"
| "visitor h (Value_dword node val t len key v) = value_dword h node val t len key v"
| "visitor h (Value_qword node val t len key v) = value_qword h node val t len key v"
| "visitor h (Value_binary node val t len key v) = value_binary h node val t len key v"
| "visitor h (Value_none node val t len key v) = value_none h node val t len key v"
| "visitor h (Value_other node val t len key v) = value_other h node val t len key v"

text \<open>
  \<^verbatim>\<open>main\<close> from the creation of the writer on, with the converter as an argument like
  \<open>node_start_with\<close>. \<open>hivex_visit\<close> is the library's traversal: given the callbacks it
  calls them and returns 0 or -1, unless a callback ends the process. \<open>Inr\<close> is
  \<^verbatim>\<open>exit (EXIT_SUCCESS)\<close>.
\<close>

definition main_with ::
  "(state \<Rightarrow> int64_t \<Rightarrow> string option result) \<Rightarrow> hive
     \<Rightarrow> ((callback \<Rightarrow> state \<Rightarrow> (int \<times> state) result) \<Rightarrow> state \<Rightarrow> (int \<times> state) result)
     \<Rightarrow> state \<Rightarrow> state result" where
  "main_with conv h hivex_visit st0 =
     and_then (XML_CHECK (StartDocument ''utf-8'') st0) (\<lambda>st.
     and_then (XML_CHECK (StartElement ''hive'') st) (\<lambda>st.
     let (hive_mtime, e) = hivex_last_modified h; st = set_errno e st in
     and_then
       (if 0 \<le> sint hive_mtime
        then and_then (conv st hive_mtime) (\<lambda>timebuf.
               case timebuf of
                 Some buf \<Rightarrow> chain [XML_CHECK (StartElement ''mtime''),
                                    XML_CHECK (WriteString buf),
                                    XML_CHECK EndElement] st
               | None \<Rightarrow> Inr st)
        else Inr st) (\<lambda>st.
     and_then (hivex_visit (visitor h) st) (\<lambda>(ret, st).
     if ret = - 1 then Inl (Exit_failure, st)
     else
       let (ret, e) = hivex_close h; st = set_errno e st in
       if ret = - 1 then Inl (Exit_failure, st)
       else chain [XML_CHECK EndElement, XML_CHECK EndDocument] st))))"

definition main ::
  "hive \<Rightarrow> ((callback \<Rightarrow> state \<Rightarrow> (int \<times> state) result) \<Rightarrow> state \<Rightarrow> (int \<times> state) result)
     \<Rightarrow> state \<Rightarrow> state result" where
  "main = main_with filetime_to_8601"

subsection \<open>Reading the written document\<close>

text \<open>The calls a computation added to the document: those of \<open>st'\<close> beyond those of \<open>st\<close>.\<close>

definition written :: "state \<Rightarrow> state \<Rightarrow> xml_call list" where
  "written st st' = drop (length (events st)) (events st')"

text \<open>
  The attributes written at the head of a list of calls, up to the first call that is not
  part of an attribute: raw text, or base64 of the bytes given.
\<close>

datatype attr_content = Raw string | Base64 string

fun attrs :: "xml_call list \<Rightarrow> (string \<times> attr_content) list" where
  "attrs (WriteAttribute n v # cs) = (n, Raw v) # attrs cs"
| "attrs (WriteFormatAttribute n v # cs) = (n, Raw v) # attrs cs"
| "attrs (StartAttribute n # WriteBase64 b # EndAttribute # cs) = (n, Base64 b) # attrs cs"
| "attrs cs = []"

text \<open>The elements opened in a list of calls, each with its name and its attributes.\<close>

fun elements :: "xml_call list \<Rightarrow> (string \<times> (string \<times> attr_content) list) list" where
  "elements [] = []"
| "elements (StartElement n # cs) = (n, attrs cs) # elements cs"
| "elements (c # cs) = elements cs"

definition has_attr :: "string \<Rightarrow> (string \<times> attr_content) list \<Rightarrow> bool" where
  "has_attr n as = list_ex (\<lambda>a. fst a = n) as"

definition has_base64 :: "string \<Rightarrow> (string \<times> attr_content) list \<Rightarrow> bool" where
  "has_base64 n as =
     list_ex (\<lambda>a. fst a = n \<and> (case snd a of Base64 b \<Rightarrow> True | Raw v \<Rightarrow> False)) as"

text \<open>Calls before which a run of attributes ends: the list is over, or an element opens or closes.\<close>

fun is_stop :: "xml_call list \<Rightarrow> bool" where
  "is_stop [] = True"
| "is_stop (StartElement n # cs) = True"
| "is_stop (EndElement # cs) = True"
| "is_stop (c # cs) = False"

text \<open>The calls \<^const>\<open>safe_print_string_attribute\<close> makes for an attribute.\<close>

definition printed_attribute :: "string \<Rightarrow> string \<Rightarrow> string \<Rightarrow> xml_call list" where
  "printed_attribute name encoding data =
     (if encoding_recommendation data = ''none'' then [WriteAttribute name (c_str data)]
      else [WriteAttribute encoding ''base64'', StartAttribute name,
            WriteBase64 (take (nat (int_of_size_t (of_nat (strlen data)))) data),
            EndAttribute])"

text \<open>The arguments of a value callback: the value's handle, key and payload length.\<close>

fun is_value :: "callback \<Rightarrow> bool" where
  "is_value (Node_start node name) = False"
| "is_value (Node_end node name) = False"
| "is_value c = True"

fun value_of :: "callback \<Rightarrow> size_t" where
  "value_of (Value_string node val t len key str) = val"
| "value_of (Value_multiple_strings node val t len key argv) = val"
| "value_of (Value_string_invalid_utf16 node val t len key str) = val"
| "value_of (Value_dword node val t len key v) = val"
| "value_of (Value_qword node val t len key v) = val"
| "value_of (Value_binary node val t len key v) = val"
| "value_of (Value_none node val t len key v) = val"
| "value_of (Value_other node val t len key v) = val"
| "value_of c = 0"

fun key_of :: "callback \<Rightarrow> string" where
  "key_of (Value_string node val t len key str) = key"
| "key_of (Value_multiple_strings node val t len key argv) = key"
| "key_of (Value_string_invalid_utf16 node val t len key str) = key"
| "key_of (Value_dword node val t len key v) = key"
| "key_of (Value_qword node val t len key v) = key"
| "key_of (Value_binary node val t len key v) = key"
| "key_of (Value_none node val t len key v) = key"
| "key_of (Value_other node val t len key v) = key"
| "key_of c = []"

text \<open>The callbacks that write the payload only when its length is not 0.\<close>

fun skips_empty_payload :: "callback \<Rightarrow> bool" where
  "skips_empty_payload (Value_none node val t len key v) = (len = 0)"
| "skips_empty_payload (Value_other node val t len key v) = (len = 0)"
| "skips_empty_payload c = False"

text \<open>
  An element's encoding attributes agree with its content attributes: \<open>name_encoding\<close> and
  \<open>key_encoding\<close> are there exactly when \<open>name\<close> and \<open>key\<close> are written in base64; a
  \<open>value\<close> written in base64 comes with \<open>value_encoding\<close>, and \<open>value_encoding\<close> comes
  with a \<open>value\<close> written in base64, unless the element is the \<open>value\<close> element of a
  callback that has skipped an empty payload; and the text of every encoding attribute is
  \<open>base64\<close>.
\<close>

definition is_encoding_attr :: "string \<Rightarrow> bool" where
  "is_encoding_attr n = (n = ''name_encoding'' \<or> n = ''key_encoding'' \<or> n = ''value_encoding'')"

definition encodings_match :: "callback \<Rightarrow> string \<times> (string \<times> attr_content) list \<Rightarrow> bool" where
  "encodings_match c el =
     (case el of (n, as) \<Rightarrow>
        (has_attr ''name_encoding'' as \<longleftrightarrow> has_base64 ''name'' as) \<and>
        (has_attr ''key_encoding'' as \<longleftrightarrow> has_base64 ''key'' as) \<and>
        (has_base64 ''value'' as \<longrightarrow> has_attr ''value_encoding'' as) \<and>
        (has_attr ''value_encoding'' as \<longrightarrow>
           has_base64 ''value'' as \<or> (n = ''value'' \<and> skips_empty_payload c)) \<and>
        list_all (\<lambda>a. is_encoding_attr (fst a) \<longrightarrow> snd a = Raw ''base64'') as)"

text \<open>The claim without the exception: each encoding attribute goes with base64 content.\<close>

definition encodings_match_strictly :: "string \<times> (string \<times> attr_content) list \<Rightarrow> bool" where
  "encodings_match_strictly el =
     (case el of (n, as) \<Rightarrow>
        (has_attr ''name_encoding'' as \<longleftrightarrow> has_base64 ''name'' as) \<and>
        (has_attr ''key_encoding'' as \<longleftrightarrow> has_base64 ''key'' as) \<and>
        (has_attr ''value_encoding'' as \<longleftrightarrow> has_base64 ''value'' as))"

subsection \<open>A hive and a start state for concrete runs\<close>

text \<open>
  A writer that accepts every call, memory that never runs out, and a hive whose root is the
  node at 32; the timestamp of the node at 64 is refused with -1 and \<^verbatim>\<open>EINVAL\<close> (22), and
  no other node has a timestamp recorded.
  The value at 200 has its data in a cell of 12 bytes at 4128, the value at 400 in a cell of
  8 bytes at 4200, and every other value has its data inline.
\<close>

definition example_state :: state where
  "example_state = \<lparr>events = [], accepts = (\<lambda>_ _. True), malloc_ok = (\<lambda>_. True), errno = 0\<rparr>"

definition example_hive :: hive where
  "example_hive =
     \<lparr>hivex_root = (32, None),
      hivex_last_modified = (116444736000000000, None),
      hivex_node_timestamp = (\<lambda>node. if node = 64 then (- 1, Some 22) else (0, None)),
      hivex_node_struct_length = (\<lambda>node. (80, None)),
      hivex_value_struct_length = (\<lambda>val. (24, None)),
      hivex_value_data_cell_offset =
        (\<lambda>val. if val = 200 then ((4128, 12), None)
               else if val = 400 then ((4200, 8), None) else ((0, 0), None)),
      hivex_close = (0, None)\<rparr>"

subsection \<open>The calls of each callback\<close>

text \<open>
  What a callback that returns has added to the document, as a function of its arguments
  and its return value; each is proved below to be what the callback writes.
  \<open>key_calls\<close> is the key or default attribute of \<^const>\<open>start_value\<close>, \<open>value_head\<close>
  all that \<^const>\<open>start_value\<close> writes, \<open>value_byte_run_calls\<close> the element that
  \<^const>\<open>value_byte_runs\<close> writes when it returns 0.
\<close>

definition key_calls :: "string \<Rightarrow> xml_call list" where
  "key_calls key =
     (if c_str key \<noteq> [] then printed_attribute ''key'' ''key_encoding'' key
      else [WriteAttribute ''default'' ''1''])"

definition value_head :: "string \<Rightarrow> string option \<Rightarrow> string \<Rightarrow> xml_call list" where
  "value_head type encoding key =
     [StartElement ''value'', WriteAttribute ''type'' type]
     @ (case encoding of Some enc \<Rightarrow> [WriteAttribute ''value_encoding'' enc] | None \<Rightarrow> [])
     @ key_calls key"

definition value_byte_run_calls :: "hive \<Rightarrow> size_t \<Rightarrow> xml_call list" where
  "value_byte_run_calls h val =
     [StartElement ''byte_runs'', StartElement ''byte_run'',
      WriteAttribute ''file_offset'' (fmt_d val),
      WriteAttribute ''len'' (fmt_d (fst (hivex_value_struct_length h val))),
      EndElement]
     @ (if 4 < snd (fst (hivex_value_data_cell_offset h val))
        then [StartElement ''byte_run'',
              WriteAttribute ''file_offset'' (fmt_d (fst (fst (hivex_value_data_cell_offset h val)))),
              WriteAttribute ''len'' (fmt_d (snd (fst (hivex_value_data_cell_offset h val)))),
              EndElement]
        else [])
     @ [EndElement]"

definition node_byte_run_calls :: "hive \<Rightarrow> size_t \<Rightarrow> xml_call list" where
  "node_byte_run_calls h node =
     [StartElement ''byte_runs'', StartElement ''byte_run'',
      WriteAttribute ''file_offset'' (fmt_d node),
      WriteAttribute ''len'' (fmt_d (fst (hivex_node_struct_length h node))),
      EndElement, EndElement]"

definition runs :: "hive \<Rightarrow> size_t \<Rightarrow> int \<Rightarrow> xml_call list" where
  "runs h val ret = (if ret = 0 then value_byte_run_calls h val else [])"

definition base64_value :: "size_t \<Rightarrow> string \<Rightarrow> xml_call list" where
  "base64_value len v =
     [StartAttribute ''value'', WriteBase64 (take (nat (int_of_size_t len)) v), EndAttribute]"

definition string_calls :: "string \<Rightarrow> xml_call list" where
  "string_calls s =
     StartElement ''string'' # printed_attribute ''value'' ''value_encoding'' s @ [EndElement]"

fun value_calls :: "hive \<Rightarrow> callback \<Rightarrow> int \<Rightarrow> xml_call list" where
  "value_calls h (Value_string node val t len key str) ret =
     (case value_string_type t of None \<Rightarrow> []
      | Some type \<Rightarrow> value_head type None key
          @ printed_attribute ''value'' ''value_encoding'' str @ runs h val ret @ [EndElement])"
| "value_calls h (Value_multiple_strings node val t len key argv) ret =
     value_head ''string-list'' None key @ concat (map string_calls argv)
     @ runs h val ret @ [EndElement]"
| "value_calls h (Value_string_invalid_utf16 node val t len key str) ret =
     (case value_string_invalid_utf16_type t of None \<Rightarrow> []
      | Some type \<Rightarrow> value_head type (Some ''base64'') key
          @ base64_value len str @ runs h val ret @ [EndElement])"
| "value_calls h (Value_dword node val t len key v) ret =
     value_head ''int32'' None key @ [WriteFormatAttribute ''value'' (show_int (sint v))]
     @ runs h val ret @ [EndElement]"
| "value_calls h (Value_qword node val t len key v) ret =
     value_head ''int64'' None key @ [WriteFormatAttribute ''value'' (show_int (sint v))]
     @ runs h val ret @ [EndElement]"
| "value_calls h (Value_binary node val t len key v) ret =
     value_head ''binary'' (Some ''base64'') key @ base64_value len v
     @ runs h val ret @ [EndElement]"
| "value_calls h (Value_none node val t len key v) ret =
     value_head ''none'' (Some ''base64'') key
     @ (if 0 < len then base64_value len v @ runs h val ret else []) @ [EndElement]"
| "value_calls h (Value_other node val t len key v) ret =
     (case value_other_type t of None \<Rightarrow> []
      | Some type \<Rightarrow> value_head type (Some ''base64'') key
          @ (if 0 < len then base64_value len v @ runs h val ret else []) @ [EndElement])"
| "value_calls h c ret = []"

section \<open>Properties\<close>

subsection \<open>Sequencing\<close>

lemma and_then_Inr: "and_then m f = Inr y \<longleftrightarrow> (\<exists>x. m = Inr x \<and> f x = Inr y)"
  by (cases m) (simp_all add: and_then_def)

lemma and_then_simps [simp]: "and_then (Inl e) f = Inl e" "and_then (Inr x) f = f x"
  by (simp_all add: and_then_def)

lemma XML_CHECK_Inr:
  "XML_CHECK c st = Inr st' \<longleftrightarrow>
     accepts st (events st) c \<and> st' = st\<lparr>events := events st @ [c]\<rparr>"
  by (auto simp: XML_CHECK_def)

lemma returning_Inr: "returning r m = Inr (ret, st') \<longleftrightarrow> ret = r \<and> m = Inr st'"
  by (cases m) (auto simp: returning_def)

lemma written_append [simp]: "events st' = events st @ cs \<Longrightarrow> written st st' = cs"
  by (simp add: written_def)

subsection \<open>The encoding recommendation\<close>

text \<open>
  The loop leaves \<open>is_printable\<close> as it was when it does not run, and otherwise tells
  whether every byte from \<open>i\<close> up to the bound is printable.
\<close>

lemma encoding_recommendation_loop_eq:
  "i \<le> n \<Longrightarrow> encoding_recommendation_loop data n i p =
     (if i = n then p else (\<forall>j. i \<le> j \<and> j < n \<longrightarrow> isprint (data ! j)))"
proof (induction data n i p rule: encoding_recommendation_loop.induct)
  case (1 data data_len i is_printable)
  show ?case
  proof (cases "i < data_len")
    case False
    with 1(2) show ?thesis by (simp add: encoding_recommendation_loop.simps)
  next
    case True
    show ?thesis
    proof (cases "isprint (data ! i)")
      case False
      with True show ?thesis
        by (subst encoding_recommendation_loop.simps) auto
    next
      case p: True
      have ih: "encoding_recommendation_loop data data_len (Suc i) True =
        (if Suc i = data_len then True
         else \<forall>j. Suc i \<le> j \<and> j < data_len \<longrightarrow> isprint (data ! j))"
        using 1(1)[OF True refl _] p True by simp
      have "(\<forall>j. i \<le> j \<and> j < data_len \<longrightarrow> isprint (data ! j)) \<longleftrightarrow>
            (\<forall>j. Suc i \<le> j \<and> j < data_len \<longrightarrow> isprint (data ! j))"
        using p by (metis Suc_leI le_neq_implies_less Suc_leD)
      with True p ih show ?thesis
        by (subst encoding_recommendation_loop.simps) (auto simp: Let_def)
    qed
  qed
qed

lemma strlen_le: "strlen data \<le> length data"
  unfolding strlen_def by (rule length_takeWhile_le)

lemma c_str_takeWhile: "c_str data = takeWhile (\<lambda>c. c \<noteq> NUL) data"
  unfolding c_str_def strlen_def by (rule takeWhile_eq_take [symmetric])

lemma length_c_str: "length (c_str data) = strlen data"
  by (simp add: c_str_def strlen_le)

lemma encoding_recommendation_eq:
  "encoding_recommendation data =
     (if c_str data \<noteq> [] \<and> list_all isprint (c_str data) then ''none'' else ''base64'')"
proof -
  have nth: "\<And>j. j < strlen data \<Longrightarrow> c_str data ! j = data ! j"
    by (simp add: c_str_def)
  have "list_all isprint (c_str data) \<longleftrightarrow>
        (\<forall>j. 0 \<le> j \<and> j < strlen data \<longrightarrow> isprint (data ! j))"
    by (simp add: list_all_length length_c_str nth)
  moreover have "c_str data \<noteq> [] \<longleftrightarrow> 0 \<noteq> strlen data"
    using length_c_str [of data] by (metis length_0_conv)
  ultimately show ?thesis
    unfolding encoding_recommendation_def Let_def
    by (simp only: encoding_recommendation_loop_eq [of 0 "strlen data" data False, OF le0]) auto
qed





subsection \<open>What the callbacks write\<close>

lemma set_errno_events [simp]: "events (set_errno e st) = events st"
  and set_errno_accepts [simp]: "accepts (set_errno e st) = accepts st"
  by (simp_all add: set_errno_def split: option.splits)

lemma safe_print_string_attribute_events:
  "safe_print_string_attribute (Some n) (Some e) (Some d) st = Inr (ret, st') \<Longrightarrow>
   errno st' = errno st \<and> events st' = events st @ printed_attribute n e d"
  by (auto simp: safe_print_string_attribute_def printed_attribute_def Let_def returning_Inr
      and_then_Inr XML_CHECK_Inr xmlTextWriterWriteBase64_def c_str_def
      encoding_recommendation_def split: if_splits)

lemma deref_key: "(case key of [] \<Rightarrow> False | c # _ \<Rightarrow> c \<noteq> NUL) \<longleftrightarrow> c_str key \<noteq> []"
  by (cases key) (simp_all add: c_str_takeWhile)

lemma start_value_events:
  "start_value key type encoding st = Inr st' \<Longrightarrow>
   errno st' = errno st \<and> events st' = events st @ value_head type encoding key"
  unfolding start_value_def deref_key
  by (auto simp: value_head_def key_calls_def and_then_Inr XML_CHECK_Inr
      dest!: safe_print_string_attribute_events split: option.splits if_splits)

lemma value_byte_runs_events:
  "value_byte_runs h val st = Inr (ret, st') \<Longrightarrow>
   (ret = 0 \<or> ret = - 1) \<and> events st' = events st @ runs h val ret"
  by (auto simp: value_byte_runs_def runs_def value_byte_run_calls_def Let_def returning_Inr
      and_then_Inr XML_CHECK_Inr split: prod.splits if_splits)

lemma end_value_events: "end_value st = Inr st' \<Longrightarrow> events st' = events st @ [EndElement]"
  by (auto simp: end_value_def XML_CHECK_Inr)

lemma value_multiple_strings_loop_events:
  "value_multiple_strings_loop argv r st = Inr (ret, st') \<Longrightarrow>
   events st' = events st @ concat (map string_calls argv)"
proof (induction argv arbitrary: r st)
  case Nil then show ?case by simp
next
  case (Cons s argv)
  then show ?case
    by (auto simp: and_then_Inr XML_CHECK_Inr string_calls_def
        dest!: safe_print_string_attribute_events)
qed

lemma value_string_events:
  "value_string h node val t len key str st = Inr (ret, st') \<Longrightarrow>
   (ret = 0 \<or> ret = - 1) \<and>
   events st' = events st @ value_calls h (Value_string node val t len key str) ret"
  by (auto simp: value_string_def and_then_Inr
      dest!: start_value_events safe_print_string_attribute_events value_byte_runs_events
        end_value_events split: option.splits)

lemma value_multiple_strings_events:
  "value_multiple_strings h node val t len key argv st = Inr (ret, st') \<Longrightarrow>
   (ret = 0 \<or> ret = - 1) \<and>
   events st' = events st @ value_calls h (Value_multiple_strings node val t len key argv) ret"
  by (auto simp: value_multiple_strings_def and_then_Inr
      dest!: start_value_events value_multiple_strings_loop_events value_byte_runs_events
        end_value_events)

lemma value_string_invalid_utf16_events:
  "value_string_invalid_utf16 h node val t len key str st = Inr (ret, st') \<Longrightarrow>
   (ret = 0 \<or> ret = - 1) \<and>
   events st' = events st @ value_calls h (Value_string_invalid_utf16 node val t len key str) ret"
  by (auto simp: value_string_invalid_utf16_def and_then_Inr XML_CHECK_Inr
      xmlTextWriterWriteBase64_def base64_value_def
      dest!: start_value_events value_byte_runs_events
        end_value_events split: option.splits if_splits)

lemma value_dword_events:
  "value_dword h node val t len key v st = Inr (ret, st') \<Longrightarrow>
   (ret = 0 \<or> ret = - 1) \<and>
   events st' = events st @ value_calls h (Value_dword node val t len key v) ret"
  by (auto simp: value_dword_def and_then_Inr XML_CHECK_Inr
      dest!: start_value_events value_byte_runs_events end_value_events)

lemma value_qword_events:
  "value_qword h node val t len key v st = Inr (ret, st') \<Longrightarrow>
   (ret = 0 \<or> ret = - 1) \<and>
   events st' = events st @ value_calls h (Value_qword node val t len key v) ret"
  by (auto simp: value_qword_def and_then_Inr XML_CHECK_Inr
      dest!: start_value_events value_byte_runs_events end_value_events)

lemma value_binary_events:
  "value_binary h node val t len key v st = Inr (ret, st') \<Longrightarrow>
   (ret = 0 \<or> ret = - 1) \<and>
   events st' = events st @ value_calls h (Value_binary node val t len key v) ret"
  by (auto simp: value_binary_def and_then_Inr XML_CHECK_Inr xmlTextWriterWriteBase64_def
      base64_value_def
      dest!: start_value_events value_byte_runs_events end_value_events split: if_splits)

lemma value_none_events:
  "value_none h node val t len key v st = Inr (ret, st') \<Longrightarrow>
   (ret = 0 \<or> ret = - 1) \<and> (len = 0 \<longrightarrow> ret = 0) \<and>
   events st' = events st @ value_calls h (Value_none node val t len key v) ret"
  by (auto simp: value_none_def and_then_Inr XML_CHECK_Inr xmlTextWriterWriteBase64_def
      base64_value_def word_gt_0
      dest!: start_value_events value_byte_runs_events end_value_events
      split: if_splits)

lemma value_other_events:
  "value_other h node val t len key v st = Inr (ret, st') \<Longrightarrow>
   (ret = 0 \<or> ret = - 1) \<and> (len = 0 \<longrightarrow> ret = 0) \<and>
   events st' = events st @ value_calls h (Value_other node val t len key v) ret"
  by (auto simp: value_other_def and_then_Inr XML_CHECK_Inr xmlTextWriterWriteBase64_def
      base64_value_def word_gt_0
      dest!: start_value_events value_byte_runs_events end_value_events
      split: if_splits option.splits)

lemma visitor_value_written:
  assumes "visitor h c st = Inr (ret, st')" and "is_value c"
  shows "written st st' = value_calls h c ret \<and> (ret = 0 \<or> ret = - 1) \<and>
         (skips_empty_payload c \<longrightarrow> ret = 0)"
proof (cases c)
  case (Value_string node val t len key str)
  with assms value_string_events [of h node val t len key str st ret st'] show ?thesis by simp
next
  case (Value_multiple_strings node val t len key argv)
  with assms value_multiple_strings_events [of h node val t len key argv st ret st']
  show ?thesis by simp
next
  case (Value_string_invalid_utf16 node val t len key str)
  with assms value_string_invalid_utf16_events [of h node val t len key str st ret st']
  show ?thesis by simp
next
  case (Value_dword node val t len key v)
  with assms value_dword_events [of h node val t len key v st ret st'] show ?thesis by simp
next
  case (Value_qword node val t len key v)
  with assms value_qword_events [of h node val t len key v st ret st'] show ?thesis by simp
next
  case (Value_binary node val t len key v)
  with assms value_binary_events [of h node val t len key v st ret st'] show ?thesis by simp
next
  case (Value_none node val t len key v)
  with assms value_none_events [of h node val t len key v st ret st'] show ?thesis by simp
next
  case (Value_other node val t len key v)
  with assms value_other_events [of h node val t len key v st ret st'] show ?thesis by simp
qed (use assms in simp_all)

subsection \<open>Attributes of the written elements\<close>

lemma attrs_printed_attribute:
  "attrs (printed_attribute n e d @ cs) =
     (if encoding_recommendation d = ''none'' then [(n, Raw (c_str d))]
      else [(e, Raw ''base64''),
            (n, Base64 (take (nat (int_of_size_t (of_nat (strlen d)))) d))]) @ attrs cs"
  by (simp add: printed_attribute_def)

lemma attrs_key_calls:
  "attrs (key_calls key @ cs) =
     (if c_str key = [] then [(''default'', Raw ''1'')]
      else if encoding_recommendation key = ''none'' then [(''key'', Raw (c_str key))]
      else [(''key_encoding'', Raw ''base64''),
            (''key'', Base64 (take (nat (int_of_size_t (of_nat (strlen key)))) key))])
     @ attrs cs"
  by (simp add: key_calls_def attrs_printed_attribute)

lemma attrs_base64_value:
  "attrs (base64_value len v @ cs)
     = (''value'', Base64 (take (nat (int_of_size_t len)) v)) # attrs cs"
  by (simp add: base64_value_def)

lemma attrs_runs: "attrs (runs h val ret @ EndElement # cs) = []"
  by (simp add: runs_def value_byte_run_calls_def)

lemma attrs_strings:
  "attrs (concat (map string_calls argv) @ runs h val ret @ EndElement # cs) = []"
  by (cases argv) (simp_all add: attrs_runs string_calls_def)

lemmas attrs_calls = attrs_printed_attribute attrs_key_calls attrs_base64_value attrs_runs
  attrs_strings

subsection \<open>Concrete runs\<close>

lemma digit_char_simps:
  "digit_char 0 = CHR ''0''" "digit_char 1 = CHR ''1''" "digit_char 2 = CHR ''2''"
  "digit_char 3 = CHR ''3''" "digit_char 4 = CHR ''4''" "digit_char 5 = CHR ''5''"
  "digit_char 6 = CHR ''6''" "digit_char 7 = CHR ''7''" "digit_char 8 = CHR ''8''"
  "digit_char 9 = CHR ''9''"
  by code_simp+

lemma digit_char_Suc_0: "digit_char (Suc 0) = CHR ''1''"
  using digit_char_simps(2) by simp

lemmas run_defs = value_string_def value_dword_def value_none_def value_binary_def
  value_string_invalid_utf16_def value_other_def start_value_def
  safe_print_string_attribute_def value_byte_runs_def end_value_def XML_CHECK_def returning_def
  xmlTextWriterWriteBase64_def int_of_size_t_def
  set_errno_def example_state_def example_hive_def encoding_recommendation_eq c_str_def strlen_def
  NUL_def isprint_def fmt_d_def show_int_def show_nat.simps digit_char_simps digit_char_Suc_0
  Let_def

subsection \<open>The key of a value\<close>

text \<open>
  C6. Every value callback that returns has opened a \<open>value\<close> element; if the key is the
  empty string the element carries \<open>default="1"\<close> and no \<open>key\<close> attribute, and if the
  key is not empty it carries a \<open>key\<close> attribute and no \<open>default\<close> attribute.
\<close>

theorem value_key_or_default:
  assumes "visitor h c st = Inr (ret, st')" and "is_value c"
  shows "hd (written st st') = StartElement ''value'' \<and>
         (c_str (key_of c) = [] \<longrightarrow>
            (''default'', Raw ''1'') \<in> set (attrs (tl (written st st'))) \<and>
            \<not> has_attr ''key'' (attrs (tl (written st st')))) \<and>
         (c_str (key_of c) \<noteq> [] \<longrightarrow>
            has_attr ''key'' (attrs (tl (written st st'))) \<and>
            \<not> has_attr ''default'' (attrs (tl (written st st'))))"
proof -
  from visitor_value_written [OF assms]
  have w: "written st st' = value_calls h c ret" by simp
  show ?thesis unfolding w using assms
    by (cases c)
      (auto simp: value_head_def has_attr_def attrs_calls value_string_def
        value_string_invalid_utf16_def value_other_def split: option.splits)
qed

theorem value_key_or_default_witness:
  "visitor example_hive (Value_dword 32 300 hive_t_dword 4 (''Foo'' @ [NUL]) (- 1)) example_state
     = Inr (0, example_state\<lparr>events :=
         [StartElement ''value'', WriteAttribute ''type'' ''int32'',
          WriteAttribute ''key'' ''Foo'', WriteFormatAttribute ''value'' ''-1'',
          StartElement ''byte_runs'', StartElement ''byte_run'',
          WriteAttribute ''file_offset'' ''300'', WriteAttribute ''len'' ''24'',
          EndElement, EndElement, EndElement]\<rparr>) \<and>
   has_attr ''key'' [(''type'', Raw ''int32''), (''key'', Raw ''Foo''), (''value'', Raw ''-1'')] \<and>
   visitor example_hive (Value_dword 32 300 hive_t_dword 4 [NUL] 7) example_state
     = Inr (0, example_state\<lparr>events :=
         [StartElement ''value'', WriteAttribute ''type'' ''int32'',
          WriteAttribute ''default'' ''1'', WriteFormatAttribute ''value'' ''7'',
          StartElement ''byte_runs'', StartElement ''byte_run'',
          WriteAttribute ''file_offset'' ''300'', WriteAttribute ''len'' ''24'',
          EndElement, EndElement, EndElement]\<rparr>) \<and>
   \<not> has_attr ''key'' [(''type'', Raw ''int32''), (''default'', Raw ''1''), (''value'', Raw ''7'')]"
proof -
  let ?named = "Value_dword 32 300 hive_t_dword 4 (''Foo'' @ [NUL]) (- 1)"
  let ?default = "Value_dword 32 300 hive_t_dword 4 [NUL] 7"
  let ?st1 = "example_state\<lparr>events :=
         [StartElement ''value'', WriteAttribute ''type'' ''int32'',
          WriteAttribute ''key'' ''Foo'', WriteFormatAttribute ''value'' ''-1'',
          StartElement ''byte_runs'', StartElement ''byte_run'',
          WriteAttribute ''file_offset'' ''300'', WriteAttribute ''len'' ''24'',
          EndElement, EndElement, EndElement]\<rparr>"
  let ?st2 = "example_state\<lparr>events :=
         [StartElement ''value'', WriteAttribute ''type'' ''int32'',
          WriteAttribute ''default'' ''1'', WriteFormatAttribute ''value'' ''7'',
          StartElement ''byte_runs'', StartElement ''byte_run'',
          WriteAttribute ''file_offset'' ''300'', WriteAttribute ''len'' ''24'',
          EndElement, EndElement, EndElement]\<rparr>"
  have r1: "visitor example_hive ?named example_state = Inr (0, ?st1)"
    by (simp add: run_defs)
  have r2: "visitor example_hive ?default example_state = Inr (0, ?st2)"
    by (simp add: run_defs)
  have k1: "c_str (key_of ?named) \<noteq> []" and k2: "c_str (key_of ?default) = []"
    by (simp_all add: c_str_def strlen_def NUL_def)
  have w1: "attrs (tl (written example_state ?st1))
              = [(''type'', Raw ''int32''), (''key'', Raw ''Foo''), (''value'', Raw ''-1'')]"
   and w2: "attrs (tl (written example_state ?st2))
              = [(''type'', Raw ''int32''), (''default'', Raw ''1''), (''value'', Raw ''7'')]"
    by (simp_all add: written_def example_state_def)
  from value_key_or_default [OF r1] value_key_or_default [OF r2] k1 k2 r1 r2
  show ?thesis unfolding w1 w2 by simp
qed

subsection \<open>The byte runs of a value\<close>

lemma count_printed_attribute [simp]:
  "count_list (printed_attribute n e d) (StartElement x) = 0"
  by (simp add: printed_attribute_def)

lemma count_strings [simp]:
  "x \<noteq> ''string'' \<Longrightarrow> count_list (concat (map string_calls argv)) (StartElement x) = 0"
  by (induction argv) (simp_all add: string_calls_def)

lemma count_value_head [simp]:
  "x \<noteq> ''value'' \<Longrightarrow> count_list (value_head type enc key) (StartElement x) = 0"
  by (simp add: value_head_def key_calls_def split: option.splits)

lemma count_base64_value [simp]: "count_list (base64_value len v) (StartElement x) = 0"
  by (simp add: base64_value_def)

lemma count_runs:
  "count_list (runs h val ret) (StartElement ''byte_runs'') = (if ret = 0 then 1 else 0)"
  "count_list (runs h val ret) (StartElement ''byte_run'') =
     (if ret = 0 then if 4 < snd (fst (hivex_value_data_cell_offset h val)) then 2 else 1 else 0)"
  by (simp_all add: runs_def value_byte_run_calls_def)

text \<open>
  C1, as amended. Every value callback that returns 0 has written one \<open>byte_runs\<close>
  element, except \<open>value_none\<close> and \<open>value_other\<close> on a payload of length 0, which write
  none. The element holds a second \<open>byte_run\<close> if and only if the length of the data cell
  that \<^verbatim>\<open>hivex_value_data_cell_offset\<close> reports exceeds 4, and exactly one otherwise.
\<close>

theorem value_byte_run_count:
  assumes "visitor h c st = Inr (0, st')" and "is_value c"
  shows "count_list (written st st') (StartElement ''byte_runs'') =
           (if skips_empty_payload c then 0 else 1) \<and>
         count_list (written st st') (StartElement ''byte_run'') =
           (if skips_empty_payload c then 0
            else if 4 < snd (fst (hivex_value_data_cell_offset h (value_of c))) then 2 else 1)"
proof -
  from visitor_value_written [OF assms]
  have w: "written st st' = value_calls h c 0" by simp
  show ?thesis unfolding w using assms
    by (cases c)
      (auto simp: count_runs value_string_def word_gt_0
        value_string_invalid_utf16_def value_other_def split: option.splits)
qed

theorem value_byte_run_count_witness:
  "visitor example_hive (Value_binary 32 200 hive_t_binary 8 [NUL] ''12345678'') example_state
     = Inr (0, example_state\<lparr>events :=
         [StartElement ''value'', WriteAttribute ''type'' ''binary'',
          WriteAttribute ''value_encoding'' ''base64'', WriteAttribute ''default'' ''1'',
          StartAttribute ''value'', WriteBase64 ''12345678'', EndAttribute,
          StartElement ''byte_runs'',
          StartElement ''byte_run'', WriteAttribute ''file_offset'' ''200'',
          WriteAttribute ''len'' ''24'', EndElement,
          StartElement ''byte_run'', WriteAttribute ''file_offset'' ''4128'',
          WriteAttribute ''len'' ''12'', EndElement,
          EndElement, EndElement]\<rparr>) \<and>
   count_list (written example_state (example_state\<lparr>events :=
         [StartElement ''value'', WriteAttribute ''type'' ''binary'',
          WriteAttribute ''value_encoding'' ''base64'', WriteAttribute ''default'' ''1'',
          StartAttribute ''value'', WriteBase64 ''12345678'', EndAttribute,
          StartElement ''byte_runs'',
          StartElement ''byte_run'', WriteAttribute ''file_offset'' ''200'',
          WriteAttribute ''len'' ''24'', EndElement,
          StartElement ''byte_run'', WriteAttribute ''file_offset'' ''4128'',
          WriteAttribute ''len'' ''12'', EndElement,
          EndElement, EndElement]\<rparr>)) (StartElement ''byte_run'') = 2"
proof -
  let ?c = "Value_binary 32 200 hive_t_binary 8 [NUL] ''12345678''"
  let ?st = "example_state\<lparr>events :=
         [StartElement ''value'', WriteAttribute ''type'' ''binary'',
          WriteAttribute ''value_encoding'' ''base64'', WriteAttribute ''default'' ''1'',
          StartAttribute ''value'', WriteBase64 ''12345678'', EndAttribute,
          StartElement ''byte_runs'',
          StartElement ''byte_run'', WriteAttribute ''file_offset'' ''200'',
          WriteAttribute ''len'' ''24'', EndElement,
          StartElement ''byte_run'', WriteAttribute ''file_offset'' ''4128'',
          WriteAttribute ''len'' ''12'', EndElement,
          EndElement, EndElement]\<rparr>"
  have r: "visitor example_hive ?c example_state = Inr (0, ?st)"
    by (simp add: run_defs)
  have v: "is_value ?c" by simp
  have "(4::64 word) < snd (fst (hivex_value_data_cell_offset example_hive (value_of ?c)))"
    by (simp add: example_hive_def)
  with value_byte_run_count [OF r v] r show ?thesis by simp
qed

text \<open>
  C1 as stated fails on a \<open>none\<close> value with an empty payload, whose element has no
  \<open>byte_run\<close> at all; and the second run follows the data cell, not the payload: the
  value at 400 has a payload of 4 bytes in a cell of its own and gets two runs.
\<close>

theorem value_byte_run_count_counterexample:
  "visitor example_hive (Value_none 32 300 hive_t_none 0 [NUL] []) example_state
     = Inr (0, example_state\<lparr>events :=
         [StartElement ''value'', WriteAttribute ''type'' ''none'',
          WriteAttribute ''value_encoding'' ''base64'', WriteAttribute ''default'' ''1'',
          EndElement]\<rparr>) \<and>
   count_list [StartElement ''value'', WriteAttribute ''type'' ''none'',
          WriteAttribute ''value_encoding'' ''base64'', WriteAttribute ''default'' ''1'',
          EndElement] (StartElement ''byte_run'') = 0 \<and>
   visitor example_hive (Value_dword 32 400 hive_t_dword 4 [NUL] 7) example_state
     = Inr (0, example_state\<lparr>events :=
         [StartElement ''value'', WriteAttribute ''type'' ''int32'',
          WriteAttribute ''default'' ''1'', WriteFormatAttribute ''value'' ''7'',
          StartElement ''byte_runs'',
          StartElement ''byte_run'', WriteAttribute ''file_offset'' ''400'',
          WriteAttribute ''len'' ''24'', EndElement,
          StartElement ''byte_run'', WriteAttribute ''file_offset'' ''4200'',
          WriteAttribute ''len'' ''8'', EndElement,
          EndElement, EndElement]\<rparr>)"
  by (simp add: run_defs)

subsection \<open>Invalid text payloads\<close>

text \<open>A length below \<open>2 ^ 31\<close> is the same number as an \<^verbatim>\<open>int\<close>.\<close>

lemma int_of_size_t_small:
  assumes "unat x < 2 ^ 31"
  shows "int_of_size_t x = int (unat x)"
proof -
  have n: "uint x = int (unat x)" by (rule uint_nat)
  have "int (unat x) < int (2 ^ 31)" using assms by (simp only: of_nat_less_iff)
  then have u: "uint x < 2 ^ 31" unfolding n by simp
  have "sint (ucast x :: 32 word) = signed_take_bit 31 (uint x)"
    using signed_ucast_eq [of x, where ?'c = 32] by simp
  also have "\<dots> = uint x"
  proof (rule signed_take_bit_int_eq_self)
    have "- (2 ^ 31) \<le> (0::int)" by simp
    also have "0 \<le> uint x" by simp
    finally show "- (2 ^ 31) \<le> uint x" .
    show "uint x < 2 ^ 31" by (rule u)
  qed
  finally show ?thesis unfolding int_of_size_t_def n .
qed

text \<open>Writing never aborts: its failures are exits.\<close>

lemma aborted_simps [simp]: "\<not> aborted (Inr x)" "aborted (Inl (e, st)) \<longleftrightarrow> e = Abort"
  by (simp_all add: aborted_def)

lemma aborted_and_then:
  "aborted (and_then m f) \<longleftrightarrow> aborted m \<or> (\<exists>x. m = Inr x \<and> aborted (f x))"
  by (cases m) (auto simp: aborted_def)

lemma aborted_returning: "aborted (returning r m) \<longleftrightarrow> aborted m"
  by (simp add: returning_def aborted_and_then)

lemma not_aborted_XML_CHECK [simp]: "\<not> aborted (XML_CHECK c st)"
  by (simp add: XML_CHECK_def)

lemma not_aborted_WriteBase64 [simp]: "\<not> aborted (xmlTextWriterWriteBase64 data start len st)"
  by (simp add: xmlTextWriterWriteBase64_def)

lemma not_aborted_safe_print [simp]: "\<not> aborted (safe_print_string_attribute n e d st)"
proof (cases "\<exists>name data enc. n = Some name \<and> d = Some data \<and> e = Some enc")
  case False
  then show ?thesis
    by (cases n; cases d; cases e) (simp_all add: safe_print_string_attribute_def)
next
  case True
  then obtain name data enc where "n = Some name" "d = Some data" "e = Some enc" by blast
  then show ?thesis
    by (simp add: safe_print_string_attribute_def Let_def aborted_returning aborted_and_then)
qed

lemma not_aborted_start_value [simp]: "\<not> aborted (start_value key type encoding st)"
  by (simp add: start_value_def aborted_and_then split_beta split: option.splits)

lemma not_aborted_value_byte_runs [simp]: "\<not> aborted (value_byte_runs h val st)"
  by (simp add: value_byte_runs_def Let_def split_beta aborted_returning aborted_and_then)

lemma not_aborted_end_value [simp]: "\<not> aborted (end_value st)"
  by (simp add: end_value_def)

text \<open>
  C5. When \<open>value_string_invalid_utf16\<close> is called for one of the four text types, with a
  payload length that an \<^verbatim>\<open>int\<close> can hold (as every length of a registry value is), it
  does not abort; and when it returns, the \<open>value\<close> element it has written carries the
  type \<open>bad-string\<close>, \<open>bad-expand\<close>, \<open>bad-link\<close> or \<open>bad-string-list\<close>, the attribute
  \<open>value_encoding="base64"\<close>, the key or default attribute, and a \<open>value\<close> attribute
  that is the base64 of the first \<open>len\<close> bytes of the payload as they are, whatever
  \<^const>\<open>encoding_recommendation\<close> would say of them.
\<close>

theorem invalid_utf16_is_bad_base64:
  assumes "t \<in> {hive_t_string, hive_t_expand_string, hive_t_link, hive_t_multiple_strings}"
      and "unat len < 2 ^ 31"
  shows "\<not> aborted (value_string_invalid_utf16 h node val t len key str st) \<and>
         (value_string_invalid_utf16 h node val t len key str st = Inr (ret, st') \<longrightarrow>
            hd (written st st') = StartElement ''value'' \<and>
            attrs (tl (written st st')) =
              [(''type'', Raw (if t = hive_t_string then ''bad-string''
                               else if t = hive_t_expand_string then ''bad-expand''
                               else if t = hive_t_link then ''bad-link''
                               else ''bad-string-list'')),
               (''value_encoding'', Raw ''base64'')]
              @ attrs (key_calls key) @ [(''value'', Base64 (take (unat len) str))])"
proof (intro conjI impI)
  show "\<not> aborted (value_string_invalid_utf16 h node val t len key str st)"
    using assms(1)
    by (auto simp: value_string_invalid_utf16_def aborted_and_then split_beta)
next
  assume r: "value_string_invalid_utf16 h node val t len key str st = Inr (ret, st')"
  from value_string_invalid_utf16_events [OF r]
  have w: "written st st' = value_calls h (Value_string_invalid_utf16 node val t len key str) ret"
    by simp
  have k: "attrs (key_calls key @ cs) = attrs (key_calls key) @ attrs cs" for cs
    using attrs_key_calls [of key cs] attrs_key_calls [of key "[]"] by simp
  show "hd (written st st') = StartElement ''value''"
    unfolding w using assms(1) by (auto simp: value_head_def)
  show "attrs (tl (written st st')) =
              [(''type'', Raw (if t = hive_t_string then ''bad-string''
                               else if t = hive_t_expand_string then ''bad-expand''
                               else if t = hive_t_link then ''bad-link''
                               else ''bad-string-list'')),
               (''value_encoding'', Raw ''base64'')]
              @ attrs (key_calls key) @ [(''value'', Base64 (take (unat len) str))]"
    unfolding w using assms(1)
    by (auto simp: value_head_def k attrs_base64_value attrs_runs
        int_of_size_t_small [OF assms(2)])
qed

theorem invalid_utf16_is_bad_base64_witness:
  "hive_t_string \<in> {hive_t_string, hive_t_expand_string, hive_t_link, hive_t_multiple_strings} \<and>
   hive_t_multiple_strings
     \<in> {hive_t_string, hive_t_expand_string, hive_t_link, hive_t_multiple_strings} \<and>
   unat (3 :: size_t) < 2 ^ 31 \<and>
   value_string_invalid_utf16 example_hive 32 300 hive_t_string 3 (''K'' @ [NUL])
       [CHR ''a'', NUL, CHR 0xFF, CHR ''z''] example_state
     = Inr (0, example_state\<lparr>events :=
         [StartElement ''value'', WriteAttribute ''type'' ''bad-string'',
          WriteAttribute ''value_encoding'' ''base64'', WriteAttribute ''key'' ''K'',
          StartAttribute ''value'', WriteBase64 [CHR ''a'', NUL, CHR 0xFF], EndAttribute,
          StartElement ''byte_runs'', StartElement ''byte_run'',
          WriteAttribute ''file_offset'' ''300'', WriteAttribute ''len'' ''24'', EndElement,
          EndElement, EndElement]\<rparr>) \<and>
   value_string_invalid_utf16 example_hive 32 300 hive_t_multiple_strings 3 (''K'' @ [NUL])
       [CHR ''a'', NUL, CHR 0xFF, CHR ''z''] example_state
     = Inr (0, example_state\<lparr>events :=
         [StartElement ''value'', WriteAttribute ''type'' ''bad-string-list'',
          WriteAttribute ''value_encoding'' ''base64'', WriteAttribute ''key'' ''K'',
          StartAttribute ''value'', WriteBase64 [CHR ''a'', NUL, CHR 0xFF], EndAttribute,
          StartElement ''byte_runs'', StartElement ''byte_run'',
          WriteAttribute ''file_offset'' ''300'', WriteAttribute ''len'' ''24'', EndElement,
          EndElement, EndElement]\<rparr>) \<and>
   attrs [WriteAttribute ''type'' ''bad-string-list'',
          WriteAttribute ''value_encoding'' ''base64'', WriteAttribute ''key'' ''K'',
          StartAttribute ''value'', WriteBase64 [CHR ''a'', NUL, CHR 0xFF], EndAttribute,
          StartElement ''byte_runs'', StartElement ''byte_run'',
          WriteAttribute ''file_offset'' ''300'', WriteAttribute ''len'' ''24'', EndElement,
          EndElement, EndElement] =
     [(''type'', Raw ''bad-string-list''), (''value_encoding'', Raw ''base64''),
      (''key'', Raw ''K''), (''value'', Base64 [CHR ''a'', NUL, CHR 0xFF])]"
proof -
  let ?st1 = "example_state\<lparr>events :=
         [StartElement ''value'', WriteAttribute ''type'' ''bad-string'',
          WriteAttribute ''value_encoding'' ''base64'', WriteAttribute ''key'' ''K'',
          StartAttribute ''value'', WriteBase64 [CHR ''a'', NUL, CHR 0xFF], EndAttribute,
          StartElement ''byte_runs'', StartElement ''byte_run'',
          WriteAttribute ''file_offset'' ''300'', WriteAttribute ''len'' ''24'', EndElement,
          EndElement, EndElement]\<rparr>"
  let ?st2 = "example_state\<lparr>events :=
         [StartElement ''value'', WriteAttribute ''type'' ''bad-string-list'',
          WriteAttribute ''value_encoding'' ''base64'', WriteAttribute ''key'' ''K'',
          StartAttribute ''value'', WriteBase64 [CHR ''a'', NUL, CHR 0xFF], EndAttribute,
          StartElement ''byte_runs'', StartElement ''byte_run'',
          WriteAttribute ''file_offset'' ''300'', WriteAttribute ''len'' ''24'', EndElement,
          EndElement, EndElement]\<rparr>"
  have r1: "value_string_invalid_utf16 example_hive 32 300 hive_t_string 3 (''K'' @ [NUL])
       [CHR ''a'', NUL, CHR 0xFF, CHR ''z''] example_state = Inr (0, ?st1)"
    by (simp add: run_defs)
  have r2: "value_string_invalid_utf16 example_hive 32 300 hive_t_multiple_strings 3
       (''K'' @ [NUL]) [CHR ''a'', NUL, CHR 0xFF, CHR ''z''] example_state = Inr (0, ?st2)"
    by (simp add: run_defs)
  have t1: "hive_t_string \<in> {hive_t_string, hive_t_expand_string, hive_t_link,
      hive_t_multiple_strings}"
    and t2: "hive_t_multiple_strings \<in> {hive_t_string, hive_t_expand_string, hive_t_link,
      hive_t_multiple_strings}" by simp_all
  have l: "unat (3 :: size_t) < 2 ^ 31" by simp
  have k: "attrs (key_calls (''K'' @ [NUL])) = [(''key'', Raw ''K'')]"
    by (simp add: key_calls_def printed_attribute_def run_defs)
  have w: "written example_state ?st2 = events ?st2"
    by (simp add: written_def example_state_def)
  from invalid_utf16_is_bad_base64 [OF t1 l, of example_hive 32 300 "''K'' @ [NUL]"
      "[CHR ''a'', NUL, CHR 0xFF, CHR ''z'']" example_state 0 ?st1]
    invalid_utf16_is_bad_base64 [OF t2 l, of example_hive 32 300 "''K'' @ [NUL]"
      "[CHR ''a'', NUL, CHR 0xFF, CHR ''z'']" example_state 0 ?st2]
    r1 r2 k w t1 t2 l
  show ?thesis by simp
qed

subsection \<open>Type tags a callback does not expect\<close>

text \<open>
  C8, as amended. \<open>value_string\<close>, \<open>value_string_invalid_utf16\<close> and \<open>value_other\<close>
  abort at once, with nothing written, when the type tag is one of the named tags outside
  their own; \<open>value_multiple_strings\<close>, \<open>value_dword\<close>, \<open>value_qword\<close>,
  \<open>value_binary\<close> and \<open>value_none\<close> do not look at the tag: they do the same for every
  tag.
\<close>

theorem tag_outside_subset:
  "(t \<in> {hive_t_none, hive_t_binary, hive_t_dword, hive_t_dword_be, hive_t_multiple_strings,
          hive_t_resource_list, hive_t_full_resource_description,
          hive_t_resource_requirements_list, hive_t_qword}
      \<longrightarrow> value_string h node val t len key str st = Inl (Abort, st)) \<and>
   (t \<in> {hive_t_none, hive_t_binary, hive_t_dword, hive_t_dword_be,
          hive_t_resource_list, hive_t_full_resource_description,
          hive_t_resource_requirements_list, hive_t_qword}
      \<longrightarrow> value_string_invalid_utf16 h node val t len key str st = Inl (Abort, st)) \<and>
   (t \<in> {hive_t_none, hive_t_binary, hive_t_dword, hive_t_dword_be, hive_t_qword,
          hive_t_string, hive_t_expand_string, hive_t_link, hive_t_multiple_strings}
      \<longrightarrow> value_other h node val t len key str st = Inl (Abort, st)) \<and>
   value_multiple_strings h node val t len key argv st
     = value_multiple_strings h node val t' len key argv st \<and>
   value_dword h node val t len key v32 st = value_dword h node val t' len key v32 st \<and>
   value_qword h node val t len key v64 st = value_qword h node val t' len key v64 st \<and>
   value_binary h node val t len key str st = value_binary h node val t' len key str st \<and>
   value_none h node val t len key str st = value_none h node val t' len key str st"
  by (auto simp: value_string_def value_string_invalid_utf16_def value_other_def
      value_multiple_strings_def value_dword_def value_qword_def value_binary_def value_none_def)

theorem tag_outside_subset_witness:
  "value_string example_hive 32 300 hive_t_dword 4 [NUL] [NUL] example_state
     = Inl (Abort, example_state) \<and>
   value_string_invalid_utf16 example_hive 32 300 hive_t_dword 4 [NUL] [NUL] example_state
     = Inl (Abort, example_state) \<and>
   value_other example_hive 32 300 hive_t_dword 4 [NUL] [NUL] example_state
     = Inl (Abort, example_state)"
  using tag_outside_subset [of hive_t_dword example_hive 32 300 4 "[NUL]" "[NUL]" example_state]
  by simp

text \<open>
  C8 as stated fails on \<open>value_dword\<close> called with the tag of a string: it returns 0 and
  writes an \<open>int32\<close> element.
\<close>

theorem tag_outside_subset_counterexample:
  "value_dword example_hive 32 300 hive_t_string 4 [NUL] 7 example_state
     = Inr (0, example_state\<lparr>events :=
         [StartElement ''value'', WriteAttribute ''type'' ''int32'',
          WriteAttribute ''default'' ''1'', WriteFormatAttribute ''value'' ''7'',
          StartElement ''byte_runs'', StartElement ''byte_run'',
          WriteAttribute ''file_offset'' ''300'', WriteAttribute ''len'' ''24'',
          EndElement, EndElement, EndElement]\<rparr>)"
  by (simp add: run_defs)

subsection \<open>Nodes\<close>

lemma node_byte_runs_events:
  "node_byte_runs h node st = Inr (ret, st') \<Longrightarrow>
   (ret = 0 \<or> ret = - 1) \<and>
   events st' = events st @ (if ret = 0 then node_byte_run_calls h node else [])"
  by (auto simp: node_byte_runs_def node_byte_run_calls_def Let_def returning_Inr
      and_then_Inr XML_CHECK_Inr split: prod.splits if_splits)

lemma mtime_events:
  "(if 0 \<le> sint last_modified
    then and_then (conv st last_modified) (\<lambda>timebuf.
           case timebuf of
             Some buf \<Rightarrow> chain [XML_CHECK (StartElement ''mtime''), XML_CHECK (WriteString buf),
                                XML_CHECK EndElement] st
           | None \<Rightarrow> Inr st)
    else Inr st) = Inr st' \<Longrightarrow>
   events st' = events st \<or>
   (\<exists>buf. 0 \<le> sint last_modified \<and> conv st last_modified = Inr (Some buf) \<and>
      events st' = events st @ [StartElement ''mtime'', WriteString buf, EndElement])"
  by (auto simp: and_then_Inr XML_CHECK_Inr split: if_splits option.splits)

lemma node_start_with_events:
  assumes "node_start_with conv h node name st = Inr (ret, st')"
  shows "\<exists>mt. written st st' =
           StartElement ''node'' # printed_attribute ''name'' ''name_encoding'' name
           @ (if node = fst (hivex_root h) then [WriteAttribute ''root'' ''1''] else [])
           @ mt @ (if ret = 0 then node_byte_run_calls h node else []) \<and>
         (mt = [] \<or> (\<exists>buf. mt = [StartElement ''mtime'', WriteString buf, EndElement]))"
proof -
  obtain root e where root: "hivex_root h = (root, e)" by (cases "hivex_root h")
  obtain ts e' where ts: "hivex_node_timestamp h node = (ts, e')"
    by (cases "hivex_node_timestamp h node")
  from assms obtain st1 r2 st2 st3 st4 where
    s1: "XML_CHECK (StartElement ''node'') st = Inr st1" and
    s2: "safe_print_string_attribute (Some ''name'') (Some ''name_encoding'') (Some name) st1
           = Inr (r2, st2)" and
    s3: "(if node = root then XML_CHECK (WriteAttribute ''root'' ''1'') (set_errno e st2)
          else Inr (set_errno e st2)) = Inr st3" and
    s4: "(if 0 \<le> sint ts
          then and_then (conv (set_errno e' st3) ts) (\<lambda>timebuf.
           case timebuf of
             Some buf \<Rightarrow> chain [XML_CHECK (StartElement ''mtime''), XML_CHECK (WriteString buf),
                                XML_CHECK EndElement] (set_errno e' st3)
           | None \<Rightarrow> Inr (set_errno e' st3))
          else Inr (set_errno e' st3)) = Inr st4" and
    s5: "node_byte_runs h node st4 = Inr (ret, st')"
    unfolding node_start_with_def root ts
    by (auto simp: and_then_Inr Let_def)
  have e1: "events st1 = events st @ [StartElement ''node'']"
    using s1 by (auto simp: XML_CHECK_Inr)
  have e2: "events st2 = events st1 @ printed_attribute ''name'' ''name_encoding'' name"
    using safe_print_string_attribute_events [OF s2] by simp
  have e3: "events st3 = events st2 @ (if node = root then [WriteAttribute ''root'' ''1''] else [])"
    using s3 by (auto simp: XML_CHECK_Inr split: if_splits)
  from mtime_events [where conv = conv and st = "set_errno e' st3", OF s4] obtain mt where
    e4: "events st4 = events st3 @ mt" and
    mt: "mt = [] \<or> (\<exists>buf. mt = [StartElement ''mtime'', WriteString buf, EndElement])"
    by auto
  have e5: "events st' = events st4 @ (if ret = 0 then node_byte_run_calls h node else [])"
    using node_byte_runs_events [OF s5] by simp
  have "written st st' =
           StartElement ''node'' # printed_attribute ''name'' ''name_encoding'' name
           @ (if node = fst (hivex_root h) then [WriteAttribute ''root'' ''1''] else [])
           @ mt @ (if ret = 0 then node_byte_run_calls h node else [])"
    unfolding written_def e5 e4 e3 e2 e1 root by simp
  with mt show ?thesis by blast
qed

lemma is_stop_attrs: "is_stop cs \<Longrightarrow> attrs cs = []"
  by (cases cs rule: is_stop.cases) simp_all

text \<open>
  C7. The \<open>node\<close> element that \<open>node_start\<close> writes carries \<open>root="1"\<close> when the
  node is the one \<^verbatim>\<open>hivex_root\<close> answers, and no \<open>root\<close> attribute when it is another.
\<close>

theorem root_attribute:
  assumes "node_start h node name st = Inr (ret, st')"
  shows "hd (written st st') = StartElement ''node'' \<and>
         (node = fst (hivex_root h) \<longrightarrow>
            (''root'', Raw ''1'') \<in> set (attrs (tl (written st st')))) \<and>
         (node \<noteq> fst (hivex_root h) \<longrightarrow> \<not> has_attr ''root'' (attrs (tl (written st st'))))"
proof -
  from node_start_with_events [OF assms [unfolded node_start_def]]
  obtain mt where w: "written st st' =
           StartElement ''node'' # printed_attribute ''name'' ''name_encoding'' name
           @ (if node = fst (hivex_root h) then [WriteAttribute ''root'' ''1''] else [])
           @ mt @ (if ret = 0 then node_byte_run_calls h node else [])"
    and mt: "mt = [] \<or> (\<exists>buf. mt = [StartElement ''mtime'', WriteString buf, EndElement])"
    by blast
  have "is_stop (mt @ (if ret = 0 then node_byte_run_calls h node else []))"
    using mt by (auto simp: node_byte_run_calls_def)
  then have "attrs (mt @ (if ret = 0 then node_byte_run_calls h node else [])) = []"
    by (rule is_stop_attrs)
  then show ?thesis unfolding w
    by (auto simp: attrs_printed_attribute has_attr_def)
qed

lemmas node_run_defs = node_start_def node_start_with_def node_byte_runs_def node_end_def
  filetime_to_8601_def run_defs

theorem root_attribute_witness:
  "node_start example_hive 32 (''ROOT'' @ [NUL]) example_state
     = Inr (0, example_state\<lparr>events :=
         [StartElement ''node'', WriteAttribute ''name'' ''ROOT'', WriteAttribute ''root'' ''1'',
          StartElement ''byte_runs'', StartElement ''byte_run'',
          WriteAttribute ''file_offset'' ''32'', WriteAttribute ''len'' ''80'',
          EndElement, EndElement]\<rparr>) \<and>
   (''root'', Raw ''1'') \<in> set [(''name'', Raw ''ROOT''), (''root'', Raw ''1'')] \<and>
   node_start example_hive 96 (''Sub'' @ [NUL]) example_state
     = Inr (0, example_state\<lparr>events :=
         [StartElement ''node'', WriteAttribute ''name'' ''Sub'',
          StartElement ''byte_runs'', StartElement ''byte_run'',
          WriteAttribute ''file_offset'' ''96'', WriteAttribute ''len'' ''80'',
          EndElement, EndElement]\<rparr>) \<and>
   \<not> has_attr ''root'' [(''name'', Raw ''Sub'')]"
proof -
  let ?root = "example_state\<lparr>events :=
         [StartElement ''node'', WriteAttribute ''name'' ''ROOT'', WriteAttribute ''root'' ''1'',
          StartElement ''byte_runs'', StartElement ''byte_run'',
          WriteAttribute ''file_offset'' ''32'', WriteAttribute ''len'' ''80'',
          EndElement, EndElement]\<rparr>"
  let ?sub = "example_state\<lparr>events :=
         [StartElement ''node'', WriteAttribute ''name'' ''Sub'',
          StartElement ''byte_runs'', StartElement ''byte_run'',
          WriteAttribute ''file_offset'' ''96'', WriteAttribute ''len'' ''80'',
          EndElement, EndElement]\<rparr>"
  have r1: "node_start example_hive 32 (''ROOT'' @ [NUL]) example_state = Inr (0, ?root)"
    by (simp add: node_run_defs)
  have r2: "node_start example_hive 96 (''Sub'' @ [NUL]) example_state = Inr (0, ?sub)"
    by (simp add: node_run_defs)
  have h: "fst (hivex_root example_hive) = 32" by (simp add: example_hive_def)
  have w1: "attrs (tl (written example_state ?root)) = [(''name'', Raw ''ROOT''), (''root'', Raw ''1'')]"
   and w2: "attrs (tl (written example_state ?sub)) = [(''name'', Raw ''Sub'')]"
    by (simp_all add: written_def example_state_def)
  from root_attribute [OF r1] root_attribute [OF r2] r1 r2
  show ?thesis unfolding w1 w2 h by simp
qed

text \<open>
  C9. For the empty C string \<open>encoding_recommendation\<close> answers "base64", so a node with
  an empty name gets \<open>name_encoding="base64"\<close> and a \<open>name\<close> attribute written as the
  base64 of no bytes, not a raw empty \<open>name\<close> attribute.
\<close>

theorem empty_name_is_escaped:
  assumes "strlen name = 0"
  shows "encoding_recommendation name = ''base64'' \<and>
         (node_start h node name st = Inr (ret, st') \<longrightarrow>
            take 5 (written st st') =
              [StartElement ''node'', WriteAttribute ''name_encoding'' ''base64'',
               StartAttribute ''name'', WriteBase64 [], EndAttribute])"
proof -
  have c: "c_str name = []" using assms by (simp add: c_str_def)
  then have enc: "encoding_recommendation name = ''base64''"
    by (simp add: encoding_recommendation_eq)
  show ?thesis
  proof (intro conjI impI)
    assume "node_start h node name st = Inr (ret, st')"
    from node_start_with_events [OF this [unfolded node_start_def]]
    show "take 5 (written st st') =
              [StartElement ''node'', WriteAttribute ''name_encoding'' ''base64'',
               StartAttribute ''name'', WriteBase64 [], EndAttribute]"
      by (auto simp: printed_attribute_def enc c assms int_of_size_t_def)
  qed (rule enc)
qed

theorem empty_name_is_escaped_witness:
  "strlen [NUL] = 0 \<and> encoding_recommendation [NUL] = ''base64'' \<and>
   node_start example_hive 32 [NUL] example_state
     = Inr (0, example_state\<lparr>events :=
         [StartElement ''node'', WriteAttribute ''name_encoding'' ''base64'',
          StartAttribute ''name'', WriteBase64 [], EndAttribute, WriteAttribute ''root'' ''1'',
          StartElement ''byte_runs'', StartElement ''byte_run'',
          WriteAttribute ''file_offset'' ''32'', WriteAttribute ''len'' ''80'',
          EndElement, EndElement]\<rparr>)"
proof -
  let ?st = "example_state\<lparr>events :=
         [StartElement ''node'', WriteAttribute ''name_encoding'' ''base64'',
          StartAttribute ''name'', WriteBase64 [], EndAttribute, WriteAttribute ''root'' ''1'',
          StartElement ''byte_runs'', StartElement ''byte_run'',
          WriteAttribute ''file_offset'' ''32'', WriteAttribute ''len'' ''80'',
          EndElement, EndElement]\<rparr>"
  have l: "strlen [NUL] = 0" by (simp add: strlen_def)
  have r: "node_start example_hive 32 [NUL] example_state = Inr (0, ?st)"
    by (simp add: node_run_defs)
  from empty_name_is_escaped [OF l, of example_hive 32 example_state 0 ?st] l r
  show ?thesis by simp
qed

subsection \<open>Encoding attributes\<close>

lemma attrs_append_stop: "is_stop B \<Longrightarrow> attrs (A @ B) = attrs A"
  by (induction A rule: attrs.induct) (auto simp: is_stop_attrs elim: is_stop.elims)

lemma elements_append_stop: "is_stop B \<Longrightarrow> elements (A @ B) = elements A @ elements B"
  by (induction A rule: elements.induct) (simp_all add: attrs_append_stop)

lemma elements_printed_attribute: "elements (printed_attribute n e d @ cs) = elements cs"
  by (simp add: printed_attribute_def)

lemma elements_key_calls: "elements (key_calls k @ cs) = elements cs"
  by (simp add: key_calls_def elements_printed_attribute)

lemma elements_base64_value: "elements (base64_value len v @ cs) = elements cs"
  by (simp add: base64_value_def)

lemmas match_defs = encodings_match_def has_attr_def has_base64_def is_encoding_attr_def

lemma match_runs:
  "list_all (encodings_match c) (elements (runs h val ret @ EndElement # cs))
     = list_all (encodings_match c) (elements cs)"
  by (simp add: runs_def value_byte_run_calls_def match_defs)

lemma match_strings:
  "list_all (encodings_match c) (elements (concat (map string_calls argv) @ cs))
     = list_all (encodings_match c) (elements cs)"
  by (induction argv)
    (simp_all add: string_calls_def attrs_printed_attribute elements_printed_attribute match_defs)

lemma match_value_calls: "list_all (encodings_match c) (elements (value_calls h c ret))"
  by (cases c)
    (auto simp: value_head_def attrs_calls elements_key_calls elements_printed_attribute
      elements_base64_value match_runs match_strings match_defs word_gt_0
      split: option.splits)

lemma match_node_start:
  assumes "node_start_with conv h node name st = Inr (ret, st')"
  shows "list_all (encodings_match c) (elements (written st st'))"
proof -
  from node_start_with_events [OF assms]
  obtain mt where w: "written st st' =
           StartElement ''node'' # printed_attribute ''name'' ''name_encoding'' name
           @ (if node = fst (hivex_root h) then [WriteAttribute ''root'' ''1''] else [])
           @ mt @ (if ret = 0 then node_byte_run_calls h node else [])"
    and mt: "mt = [] \<or> (\<exists>buf. mt = [StartElement ''mtime'', WriteString buf, EndElement])"
    by blast
  have "is_stop (mt @ (if ret = 0 then node_byte_run_calls h node else []))"
    using mt by (auto simp: node_byte_run_calls_def)
  then have a: "attrs (mt @ (if ret = 0 then node_byte_run_calls h node else [])) = []"
    by (rule is_stop_attrs)
  have e: "list_all (encodings_match c)
             (elements (mt @ (if ret = 0 then node_byte_run_calls h node else [])))"
    using mt by (auto simp: node_byte_run_calls_def match_defs)
  show ?thesis unfolding w using a e
    by (auto simp: attrs_printed_attribute elements_printed_attribute match_defs)
qed

text \<open>
  C4, as amended. In every element that a callback writes, \<open>name_encoding\<close> is present
  if and only if \<open>name\<close> is written in base64, \<open>key_encoding\<close> if and only if \<open>key\<close>
  is written in base64, and \<open>value_encoding\<close> whenever \<open>value\<close> is written in base64;
  \<open>value_encoding\<close> without a \<open>value\<close> in base64 occurs only on the \<open>value\<close> element
  of \<open>value_none\<close> and \<open>value_other\<close> for a payload of length 0. The text of an
  encoding attribute is always \<open>base64\<close>.
\<close>

theorem encoding_attributes:
  assumes "visitor h c st = Inr (ret, st')"
  shows "list_all (encodings_match c) (elements (written st st'))"
proof (cases "is_value c")
  case True
  from visitor_value_written [OF assms True] have "written st st' = value_calls h c ret" by simp
  then show ?thesis by (simp add: match_value_calls)
next
  case False
  then show ?thesis
  proof (cases c)
    case (Node_start node name)
    with assms show ?thesis by (simp add: node_start_def match_node_start)
  next
    case (Node_end node name)
    with assms have "written st st' = [EndElement]"
      by (auto simp: node_end_def returning_Inr XML_CHECK_Inr)
    then show ?thesis by simp
  qed simp_all
qed

theorem encoding_attributes_witness:
  "visitor example_hive (Value_string 32 300 hive_t_string 2 (''K'' @ [NUL]) [CHR 0x01, NUL])
       example_state
     = Inr (0, example_state\<lparr>events :=
         [StartElement ''value'', WriteAttribute ''type'' ''string'',
          WriteAttribute ''key'' ''K'', WriteAttribute ''value_encoding'' ''base64'',
          StartAttribute ''value'', WriteBase64 [CHR 0x01], EndAttribute,
          StartElement ''byte_runs'', StartElement ''byte_run'',
          WriteAttribute ''file_offset'' ''300'', WriteAttribute ''len'' ''24'', EndElement,
          EndElement, EndElement]\<rparr>) \<and>
   list_all (encodings_match
              (Value_string 32 300 hive_t_string 2 (''K'' @ [NUL]) [CHR 0x01, NUL]))
     [(''value'', [(''type'', Raw ''string''), (''key'', Raw ''K''),
                   (''value_encoding'', Raw ''base64''), (''value'', Base64 [CHR 0x01])]),
      (''byte_runs'', []),
      (''byte_run'', [(''file_offset'', Raw ''300''), (''len'', Raw ''24'')])]"
proof -
  let ?c = "Value_string 32 300 hive_t_string 2 (''K'' @ [NUL]) [CHR 0x01, NUL]"
  let ?st = "example_state\<lparr>events :=
         [StartElement ''value'', WriteAttribute ''type'' ''string'',
          WriteAttribute ''key'' ''K'', WriteAttribute ''value_encoding'' ''base64'',
          StartAttribute ''value'', WriteBase64 [CHR 0x01], EndAttribute,
          StartElement ''byte_runs'', StartElement ''byte_run'',
          WriteAttribute ''file_offset'' ''300'', WriteAttribute ''len'' ''24'', EndElement,
          EndElement, EndElement]\<rparr>"
  have r: "visitor example_hive ?c example_state = Inr (0, ?st)"
    by (simp add: run_defs)
  have e: "elements (written example_state ?st) =
     [(''value'', [(''type'', Raw ''string''), (''key'', Raw ''K''),
                   (''value_encoding'', Raw ''base64''), (''value'', Base64 [CHR 0x01])]),
      (''byte_runs'', []),
      (''byte_run'', [(''file_offset'', Raw ''300''), (''len'', Raw ''24'')])]"
    by (simp add: written_def example_state_def)
  from encoding_attributes [OF r] r show ?thesis unfolding e by simp
qed

text \<open>
  C4 as stated fails on a \<open>none\<close> value with an empty payload: its element carries
  \<open>value_encoding="base64"\<close> and no \<open>value\<close> attribute.
\<close>

theorem encoding_attributes_counterexample:
  "visitor example_hive (Value_none 32 300 hive_t_none 0 [NUL] []) example_state
     = Inr (0, example_state\<lparr>events :=
         [StartElement ''value'', WriteAttribute ''type'' ''none'',
          WriteAttribute ''value_encoding'' ''base64'', WriteAttribute ''default'' ''1'',
          EndElement]\<rparr>) \<and>
   elements [StartElement ''value'', WriteAttribute ''type'' ''none'',
          WriteAttribute ''value_encoding'' ''base64'', WriteAttribute ''default'' ''1'',
          EndElement]
     = [(''value'', [(''type'', Raw ''none''), (''value_encoding'', Raw ''base64''),
                     (''default'', Raw ''1'')])] \<and>
   \<not> encodings_match_strictly
       (''value'', [(''type'', Raw ''none''), (''value_encoding'', Raw ''base64''),
                    (''default'', Raw ''1'')])"
  by (simp add: run_defs encodings_match_strictly_def has_attr_def has_base64_def)

subsection \<open>Negative tick counts\<close>

text \<open>
  The guard on the tick count: when the timestamp query answers a negative number,
  \<open>node_start\<close> does what it does for a node without a timestamp, whatever the converter
  is; and the converter only matters on the non-negative tick counts. The same holds for the
  hive's own timestamp in \<open>main\<close>.
\<close>

lemma node_start_with_negative:
  assumes "sint (fst (hivex_node_timestamp h node)) < 0"
  shows "node_start_with conv h node name st = node_start_with (\<lambda>st t. Inr None) h node name st"
  using assms by (simp add: node_start_with_def Let_def split_beta)

lemma node_start_with_cong:
  assumes "\<And>st t. 0 \<le> sint t \<Longrightarrow> conv st t = conv' st t"
  shows "node_start_with conv h node name st = node_start_with conv' h node name st"
  using assms by (simp add: node_start_with_def Let_def split_beta cong: if_cong)

lemma main_with_negative:
  assumes "sint (fst (hivex_last_modified h)) < 0"
  shows "main_with conv h visit st = main_with (\<lambda>st t. Inr None) h visit st"
  using assms by (simp add: main_with_def Let_def split_beta)

lemma main_with_cong:
  assumes "\<And>st t. 0 \<le> sint t \<Longrightarrow> conv st t = conv' st t"
  shows "main_with conv h visit st = main_with conv' h visit st"
  using assms by (simp add: main_with_def Let_def split_beta cong: if_cong)

text \<open>
  C10 fails on the code. The library reports the negative tick count of the node at 64 with
  \<^verbatim>\<open>errno = EINVAL\<close>. \<open>node_start\<close> skips the \<open>mtime\<close> element, but \<open>node_byte_runs\<close>
  then tests \<^verbatim>\<open>errno\<close>, which nothing has cleared, takes the node's length query for
  failed, writes no \<open>byte_runs\<close> element and returns -1: the node is not serialized as a
  node without timestamp is (the node at 96, with the same name, gets its byte run and 0).
\<close>

theorem node_start_refused_timestamp:
  "hivex_node_timestamp example_hive 64 = (- 1, Some 22) \<and>
   node_start example_hive 64 (''Sub'' @ [NUL]) example_state
     = Inr (- 1, example_state\<lparr>events :=
         [StartElement ''node'', WriteAttribute ''name'' ''Sub''], errno := 22\<rparr>) \<and>
   node_start example_hive 96 (''Sub'' @ [NUL]) example_state
     = Inr (0, example_state\<lparr>events :=
         [StartElement ''node'', WriteAttribute ''name'' ''Sub'',
          StartElement ''byte_runs'', StartElement ''byte_run'',
          WriteAttribute ''file_offset'' ''96'', WriteAttribute ''len'' ''80'',
          EndElement, EndElement]\<rparr>)"
  by (simp add: node_run_defs)

subsection \<open>The calendar of \<open>gmtime\<close>\<close>

















subsection \<open>The text of \<open>strftime\<close>\<close>




lemma show_nat_1: "n < 10 \<Longrightarrow> show_nat n = [digit_char n]"
  by (simp add: show_nat.simps)

lemma show_nat_2:
  assumes "10 \<le> n" "n < 100"
  shows "show_nat n = [digit_char (n div 10), digit_char (n mod 10)]"
proof -
  have "n div 10 < 10" using assms by simp
  then show ?thesis using assms by (subst show_nat.simps) (simp add: show_nat_1)
qed



lemma fmt_02d_eq:
  assumes "0 \<le> i" "i \<le> 99"
  shows "fmt_02d i = [digit_char (nat i div 10), digit_char (nat i mod 10)]"
proof (cases "i < 10")
  case True
  then have "nat i < 10" by simp
  moreover have "digit_char 0 = CHR ''0''" by code_simp
  ultimately show ?thesis using assms True
    by (simp add: fmt_02d_def show_int_def show_nat_1)
next
  case False
  then have "10 \<le> nat i" "nat i < 100" using assms by simp_all
  from show_nat_2 [OF this] assms show ?thesis
    by (simp add: fmt_02d_def show_int_def)
qed





subsection \<open>The timestamp converter\<close>










lemma length_fmt_02d: "0 \<le> i \<and> i \<le> 59 \<Longrightarrow> length (fmt_02d i) = 2"
  by (simp add: fmt_02d_eq)







end
